theory Spec2Isabelle
  imports
    Complex_Main
    "HOL-Library.Log_Nat"
    "HOL-Library.Sublist"
    "HOL-Library.Multiset"
    "HOL-Library.Word"
begin

section \<open>Strings\<close>

text \<open>
  A JavaScript string is a sequence of UTF-16 code units. \<open>str\<close> gives the string of a
  literal of ASCII characters.
\<close>

type_synonym code_unit = "16 word"

type_synonym js_string = "code_unit list"

definition str :: "string \<Rightarrow> js_string" where
  "str s = map (\<lambda>c. of_nat (of_char c)) s"

text \<open>\<^verbatim>\<open>s.includes(t)\<close>: \<open>t\<close> is a contiguous part of \<open>s\<close>.\<close>

definition string_includes :: "js_string \<Rightarrow> js_string \<Rightarrow> bool" where
  "string_includes s t = sublist t s"

fun join :: "js_string \<Rightarrow> js_string list \<Rightarrow> js_string" where
  "join sep [] = []"
| "join sep [x] = x"
| "join sep (x # y # ys) = x @ sep @ join sep (y # ys)"

text \<open>
  The white space of ECMA-262 (\<^verbatim>\<open>WhiteSpace\<close> and \<^verbatim>\<open>LineTerminator\<close>), which
  \<^verbatim>\<open>parseInt\<close> skips and the regular expression \<^verbatim>\<open>\s\<close> matches: TAB, LF, VT, FF, CR,
  space, U+00A0, U+1680, U+2000 to U+200A, U+2028, U+2029, U+202F, U+205F, U+3000 and
  U+FEFF.
\<close>

definition isWhiteSpace :: "code_unit \<Rightarrow> bool" where
  "isWhiteSpace c =
     ((9 \<le> c \<and> c \<le> 13) \<or> c = 32 \<or> c = 160 \<or> c = 5760 \<or> (8192 \<le> c \<and> c \<le> 8202)
      \<or> c = 8232 \<or> c = 8233 \<or> c = 8239 \<or> c = 8287 \<or> c = 12288 \<or> c = 65279)"

text \<open>
  \<^verbatim>\<open>String.prototype.toLowerCase\<close> applies the case mappings of the Unicode Character
  Database, a table of the engine. The functions that call it take it as their first
  argument, \<open>toLowerCase\<close>, and what is proved of them holds for every such function.
  \<open>asciiToLowerCase\<close> is the mapping on strings of ASCII characters, where only the
  letters \<^verbatim>\<open>A\<close> to \<^verbatim>\<open>Z\<close> change; the scenarios use it.
\<close>

definition asciiToLowerCase :: "js_string \<Rightarrow> js_string" where
  "asciiToLowerCase s = map (\<lambda>c. if 65 \<le> c \<and> c \<le> 90 then c + 32 else c) s"

section \<open>Numbers\<close>

text \<open>
  A JavaScript \<^verbatim>\<open>number\<close> is an IEEE-754 binary64 value: a finite value, here the
  rational it denotes, an infinity or NaN. The two zeros are one value: the program never
  divides, and \<^verbatim>\<open>===\<close>, \<^verbatim>\<open>toString\<close>, \<^verbatim>\<open>toFixed\<close>, truthiness, the sort
  comparator and \<^verbatim>\<open>slice\<close> do not tell \<^verbatim>\<open>-0\<close> from \<^verbatim>\<open>0\<close>. The relevance score,
  which is counted up from 0 in steps of 10 and 5, is an integer.
\<close>

datatype number = Finite rat | PosInf | NegInf | NaN

definition pow2 :: "int \<Rightarrow> rat" where
  "pow2 e = (if 0 \<le> e then 2 ^ nat e else 1 / 2 ^ nat (- e))"

definition pow10 :: "int \<Rightarrow> rat" where
  "pow10 e = (if 0 \<le> e then 10 ^ nat e else 1 / 10 ^ nat (- e))"

definition round_half_even :: "rat \<Rightarrow> int" where
  "round_half_even q =
     (let f = \<lfloor>q\<rfloor>; d = q - of_int f
      in if d < 1 / 2 then f
         else if 1 / 2 < d then f + 1
         else if even f then f else f + 1)"

text \<open>For \<open>x > 0\<close>, \<open>binade x\<close> is the \<open>e\<close> with \<open>2 ^ e \<le> x < 2 ^ (e + 1)\<close>.\<close>

definition binade :: "rat \<Rightarrow> int" where
  "binade x =
     (case quotient_of x of (p, q) \<Rightarrow>
        let e0 = bitlen p - bitlen q
        in if pow2 e0 \<le> x then e0 else e0 - 1)"

text \<open>
  Rounding to binary64, to nearest and ties to even: the significand has 53 bits, or
  fewer below \<open>2 ^ - 1022\<close>, where the values are the multiples of \<open>2 ^ - 1074\<close>; a
  result of magnitude \<open>2 ^ 1024\<close> or more is an infinity. With the exponent \<open>b\<close> of the
  number and the rounded significand \<open>m\<close>, that is the case when \<open>b \<ge> 1024\<close>, or
  \<open>b = 1023\<close> and \<open>m\<close> has been rounded up to \<open>2 ^ 53\<close>.
\<close>

definition fl :: "rat \<Rightarrow> number" where
  "fl x =
     (if x = 0 then Finite 0
      else let b = binade \<bar>x\<bar>;
               e = max b (- 1022) - 52;
               m = round_half_even (\<bar>x\<bar> / pow2 e)
           in if 1024 \<le> b \<or> (b = 1023 \<and> m = 2 ^ 53)
              then (if 0 < x then PosInf else NegInf)
              else Finite (sgn x * (of_int m * pow2 e)))"

text \<open>
  The rounded magnitude of a non-zero number: the significand \<open>m\<close> at the exponent
  \<open>e\<close>.
\<close>

definition magnitude :: "rat \<Rightarrow> rat" where
  "magnitude x =
     of_int (round_half_even (\<bar>x\<bar> / pow2 (max (binade \<bar>x\<bar>) (- 1022) - 52)))
       * pow2 (max (binade \<bar>x\<bar>) (- 1022) - 52)"

text \<open>The sign of a number that is not NaN.\<close>

fun signum :: "number \<Rightarrow> int" where
  "signum (Finite x) = sgn \<lfloor>sgn x\<rfloor>"
| "signum PosInf = 1"
| "signum NegInf = - 1"
| "signum NaN = 0"

definition fmul :: "number \<Rightarrow> number \<Rightarrow> number" where
  "fmul a b =
     (case (a, b) of
        (Finite x, Finite y) \<Rightarrow> fl (x * y)
      | _ \<Rightarrow>
          if a = NaN \<or> b = NaN \<or> signum a * signum b = 0 then NaN
          else if 0 < signum a * signum b then PosInf
          else NegInf)"

definition fadd :: "number \<Rightarrow> number \<Rightarrow> number" where
  "fadd a b =
     (case (a, b) of
        (Finite x, Finite y) \<Rightarrow> fl (x + y)
      | _ \<Rightarrow>
          if a = NaN \<or> b = NaN \<or> (a = PosInf \<and> b = NegInf) \<or> (a = NegInf \<and> b = PosInf)
          then NaN
          else if a = PosInf \<or> b = PosInf then PosInf
          else NegInf)"

fun fneg :: "number \<Rightarrow> number" where
  "fneg (Finite x) = Finite (- x)"
| "fneg PosInf = NegInf"
| "fneg NegInf = PosInf"
| "fneg NaN = NaN"

definition fsub :: "number \<Rightarrow> number \<Rightarrow> number" where
  "fsub a b = fadd a (fneg b)"

text \<open>\<^verbatim>\<open>a === b\<close>, \<^verbatim>\<open>a <= b\<close> and \<^verbatim>\<open>a > 0\<close> on numbers: NaN is in no relation.\<close>

definition strictEquals :: "number \<Rightarrow> number \<Rightarrow> bool" where
  "strictEquals a b = (a \<noteq> NaN \<and> a = b)"

definition lessEq :: "number \<Rightarrow> number \<Rightarrow> bool" where
  "lessEq a b =
     (case (a, b) of
        (Finite x, Finite y) \<Rightarrow> x \<le> y
      | _ \<Rightarrow> a \<noteq> NaN \<and> b \<noteq> NaN \<and> (a = NegInf \<or> b = PosInf))"

fun isPositive :: "number \<Rightarrow> bool" where
  "isPositive (Finite x) = (0 < x)"
| "isPositive PosInf = True"
| "isPositive NegInf = False"
| "isPositive NaN = False"

text \<open>A number is falsy when it is 0 or NaN.\<close>

definition falsy :: "number \<Rightarrow> bool" where
  "falsy v = (v = Finite 0 \<or> v = NaN)"

text \<open>
  The values of the model that are binary64 values: a finite one is its own rounding.
  Every JavaScript number is one.
\<close>

definition isBinary64 :: "number \<Rightarrow> bool" where
  "isBinary64 v = (case v of Finite x \<Rightarrow> fl x = Finite x | _ \<Rightarrow> True)"

subsection \<open>Numbers as text\<close>

definition digit_unit :: "int \<Rightarrow> code_unit" where
  "digit_unit d = of_int (48 + d)"

text \<open>The decimal digits of a non-negative integer, most significant first.\<close>

function int_digits :: "int \<Rightarrow> js_string" where
  "int_digits n =
     (if n < 10 then [digit_unit n]
      else int_digits (n div 10) @ [digit_unit (n mod 10)])"
  by pat_completeness auto
termination
  by (relation "measure nat") auto

declare int_digits.simps [simp del]

text \<open>The number of decimal digits of a positive integer.\<close>

function dec_len :: "int \<Rightarrow> int" where
  "dec_len p = (if p \<le> 0 then 0 else dec_len (p div 10) + 1)"
  by pat_completeness auto
termination
  by (relation "measure nat") auto

declare dec_len.simps [simp del]

text \<open>For \<open>x > 0\<close>, \<open>decade x\<close> is the \<open>n\<close> with \<open>10 ^ (n - 1) \<le> x < 10 ^ n\<close>.\<close>

definition decade :: "rat \<Rightarrow> int" where
  "decade x =
     (case quotient_of x of (p, q) \<Rightarrow>
        let e0 = dec_len p - dec_len q
        in if pow10 e0 \<le> x then e0 + 1 else e0)"

text \<open>
  \<^verbatim>\<open>Number::toString\<close> (ECMA-262) of a positive finite number: the digits \<open>s\<close> and the
  exponent \<open>n\<close> with the fewest digits \<open>k\<close> such that \<open>s * 10 ^ (n - k)\<close> reads back as
  \<open>x\<close>, the closest to \<open>x\<close> when two candidates do. Seventeen digits always suffice for
  a binary64 value; the first equation is not reached for one.
\<close>

fun shortest_digits :: "nat \<Rightarrow> nat \<Rightarrow> rat \<Rightarrow> int \<Rightarrow> int \<times> int" where
  "shortest_digits 0 k x n = (round_half_even (x / pow10 (n - int k)), n)"
| "shortest_digits (Suc fuel) k x n =
     (let scale = pow10 (n - int k);
          lo = \<lfloor>x / scale\<rfloor>;
          hi = lo + 1;
          ok_lo = (fl (of_int lo * scale) = Finite x);
          ok_hi = (fl (of_int hi * scale) = Finite x);
          d_lo = x - of_int lo * scale;
          d_hi = of_int hi * scale - x
      in if ok_lo \<and> (\<not> ok_hi \<or> d_lo < d_hi \<or> (d_lo = d_hi \<and> even lo)) then (lo, n)
         else if ok_hi then (if hi = 10 ^ k then (hi div 10, n + 1) else (hi, n))
         else shortest_digits fuel (Suc k) x n)"

definition positiveToString :: "rat \<Rightarrow> js_string" where
  "positiveToString x =
     (case shortest_digits 17 1 x (decade x) of (s, n) \<Rightarrow>
        let ds = int_digits s; k = int (length ds)
        in if k \<le> n \<and> n \<le> 21 then ds @ replicate (nat (n - k)) (digit_unit 0)
           else if 0 < n \<and> n \<le> 21 then take (nat n) ds @ str ''.'' @ drop (nat n) ds
           else if - 6 < n \<and> n \<le> 0
             then str ''0.'' @ replicate (nat (- n)) (digit_unit 0) @ ds
           else let e = n - 1;
                    sign = (if e < 0 then str ''-'' else str ''+'');
                    es = int_digits \<bar>e\<bar>
                in if k = 1 then ds @ str ''e'' @ sign @ es
                   else take 1 ds @ str ''.'' @ drop 1 ds @ str ''e'' @ sign @ es)"

fun numberToString :: "number \<Rightarrow> js_string" where
  "numberToString NaN = str ''NaN''"
| "numberToString PosInf = str ''Infinity''"
| "numberToString NegInf = str ''-Infinity''"
| "numberToString (Finite x) =
     (if x = 0 then str ''0''
      else if x < 0 then str ''-'' @ positiveToString (- x)
      else positiveToString x)"

text \<open>
  \<^verbatim>\<open>x.toFixed(1)\<close>: what \<^verbatim>\<open>toString\<close> gives when \<open>x\<close> is not finite; otherwise the
  sign, then the integer \<open>n\<close> for which \<open>n / 10\<close> is closest to \<open>\<bar>x\<bar>\<close> (the larger of
  two), written with one digit after the point, or from \<open>10 ^ 21\<close> on what
  \<^verbatim>\<open>toString\<close> gives.
\<close>

fun toFixed1 :: "number \<Rightarrow> js_string" where
  "toFixed1 (Finite x) =
     (let s = (if x < 0 then str ''-'' else []); a = \<bar>x\<bar>
      in if 10 ^ 21 \<le> a then s @ numberToString (Finite a)
         else let n = \<lfloor>a * 10 + 1 / 2\<rfloor>
              in s @ int_digits (n div 10) @ str ''.'' @ int_digits (n mod 10))"
| "toFixed1 PosInf = numberToString PosInf"
| "toFixed1 NegInf = numberToString NegInf"
| "toFixed1 NaN = numberToString NaN"

section \<open>Arrays\<close>

text \<open>
  \<^verbatim>\<open>Array.prototype.slice(start, end)\<close>: an index is truncated to an integer, a negative
  one counts from the end of the array, and both are clamped to the array; NaN counts
  as 0.
\<close>

fun relativeIndex :: "nat \<Rightarrow> number \<Rightarrow> nat" where
  "relativeIndex len NaN = 0"
| "relativeIndex len NegInf = 0"
| "relativeIndex len PosInf = len"
| "relativeIndex len (Finite x) =
     (let i = (if x < 0 then \<lceil>x\<rceil> else \<lfloor>x\<rfloor>)
      in if i < 0 then nat (max (int len + i) 0) else nat (min i (int len)))"

definition slice :: "'a list \<Rightarrow> number \<Rightarrow> number \<Rightarrow> 'a list" where
  "slice xs start end' =
     (let len = length xs;
          k = relativeIndex len start;
          final = relativeIndex len end'
      in take (final - k) (drop k xs))"

text \<open>
  \<^verbatim>\<open>Array.prototype.sort(comparefn)\<close> is a stable sort (ECMAScript 2019): \<open>a\<close> comes
  after \<open>b\<close> when \<open>comparefn a b > 0\<close>, before it when \<open>comparefn a b < 0\<close>, and
  elements that compare equal, or whose comparison is NaN, keep their order. With a
  consistent comparator every stable sort gives the same array; the model inserts each
  element, from the last to the first, in front of the first element it does not come
  after. When the comparator is not consistent, as is a difference of scores when a score
  is NaN, ECMA-262 leaves the order to the implementation, and the model is one
  implementation.
\<close>

fun sort_insert :: "('a \<Rightarrow> 'a \<Rightarrow> number) \<Rightarrow> 'a \<Rightarrow> 'a list \<Rightarrow> 'a list" where
  "sort_insert comparefn x [] = [x]"
| "sort_insert comparefn x (y # ys) =
     (if isPositive (comparefn x y) then y # sort_insert comparefn x ys else x # y # ys)"

definition array_sort :: "('a \<Rightarrow> 'a \<Rightarrow> number) \<Rightarrow> 'a list \<Rightarrow> 'a list" where
  "array_sort comparefn xs = foldr (sort_insert comparefn) xs []"

section \<open>Data model\<close>

record Subject =
  id_subject :: js_string
  name :: js_string
  description :: js_string
  keywords_subject :: "js_string list"
  relatedTerms :: "js_string list"

record SubjectMatch =
  subjectId :: js_string
  matchedKeywords :: "js_string list"
  relevanceScore :: int

text \<open>An optional field is \<open>None\<close> when the property is absent.\<close>

record EngagementMetrics =
  upvotes :: "number option"
  comments :: "number option"
  shares :: "number option"
  reactions :: "number option"
  views :: "number option"

text \<open>\<open>publishedAt\<close> is a time in milliseconds, or \<open>None\<close> for \<^verbatim>\<open>null\<close>.\<close>

record Article =
  id_article :: js_string
  title :: js_string
  url :: js_string
  content :: js_string
  source :: js_string
  publishedAt :: "int option"
  engagement :: EngagementMetrics

record ScoreBreakdown =
  upvotesContribution :: number
  commentsContribution :: number
  sharesContribution :: number
  reactionsContribution :: number
  viewsContribution :: number
  totalScore :: number
  explanation :: js_string

record ScoredArticle = Article +
  engagementScore :: number
  scoreBreakdown :: ScoreBreakdown
  matchedKeywords_scored :: "js_string list"
  relevanceScore_scored :: int

record ScoringWeights =
  upvotes_weight :: number
  comments_weight :: number
  shares_weight :: number
  reactions_weight :: number
  views_weight :: number

text \<open>A thrown value or the reason of a rejected promise.\<close>

datatype js_error = Error js_string

text \<open>
  A crawler's \<^verbatim>\<open>fetchArticles\<close> returns a promise; the model has its outcome for each
  subject id: \<open>Inr\<close> the articles it resolves to, \<open>Inl\<close> the reason it rejects with.
\<close>

record Crawler =
  name_crawler :: js_string
  fetchArticles :: "js_string \<Rightarrow> js_error + Article list"

section \<open>Subjects\<close>

text \<open>
  The registry \<^verbatim>\<open>subjects\<close> is a module-level \<^verbatim>\<open>Map\<close> from subject id to subject;
  the functions that read it take it as an argument, and \<open>addSubject\<close> returns the
  updated registry.
\<close>

type_synonym registry = "js_string \<rightharpoonup> Subject"

definition getSubject :: "registry \<Rightarrow> js_string \<Rightarrow> Subject option" where
  "getSubject subjects i = subjects i"

definition addSubject :: "registry \<Rightarrow> Subject \<Rightarrow> registry" where
  "addSubject subjects subject = subjects(id_subject subject \<mapsto> subject)"

text \<open>
  One loop of \<open>matchContent\<close> over a list of terms: every term whose lower-case form
  occurs in the lower-case content is pushed, as written, onto \<open>matchedKeywords\<close> and
  adds \<open>points\<close> to \<open>relevanceScore\<close>.
\<close>

fun matchTerms ::
  "(js_string \<Rightarrow> js_string) \<Rightarrow> js_string \<Rightarrow> int \<Rightarrow> js_string list
     \<Rightarrow> js_string list \<times> int \<Rightarrow> js_string list \<times> int"
where
  "matchTerms toLowerCase lowerContent points [] acc = acc"
| "matchTerms toLowerCase lowerContent points (term # terms) (matched, score) =
     matchTerms toLowerCase lowerContent points terms
       (if string_includes lowerContent (toLowerCase term)
        then (matched @ [term], score + points)
        else (matched, score))"

definition matchContent ::
  "(js_string \<Rightarrow> js_string) \<Rightarrow> registry \<Rightarrow> js_string \<Rightarrow> js_string \<Rightarrow> SubjectMatch option"
where
  "matchContent toLowerCase subjects content' subjectId' =
     (case subjects subjectId' of
        None \<Rightarrow> None
      | Some subject \<Rightarrow>
          let lowerContent = toLowerCase content';
              acc = matchTerms toLowerCase lowerContent 10 (keywords_subject subject) ([], 0);
              acc = matchTerms toLowerCase lowerContent 5 (relatedTerms subject) acc
          in (case acc of (matched, score) \<Rightarrow>
                if length matched = 0 then None
                else Some \<lparr>subjectId = subjectId', matchedKeywords = matched,
                            relevanceScore = score\<rparr>))"

definition isRelevantToSubject ::
  "(js_string \<Rightarrow> js_string) \<Rightarrow> registry \<Rightarrow> js_string \<Rightarrow> js_string \<Rightarrow> js_string \<Rightarrow> bool"
where
  "isRelevantToSubject toLowerCase subjects title' content' subjectId' =
     (let combinedText = title' @ str '' '' @ content'
      in (case matchContent toLowerCase subjects combinedText subjectId' of
            None \<Rightarrow> False
          | Some match \<Rightarrow> 0 < relevanceScore match))"

section \<open>Aggregator\<close>

text \<open>
  A settled promise is \<open>Inr\<close> its value or \<open>Inl\<close> its rejection. \<^verbatim>\<open>Promise.all\<close>
  waits for every promise and resolves to the values in the order of the promises given,
  whatever the order in which they settle; it rejects when one of them rejects.
\<close>

fun promise_all :: "(js_error + 'a) list \<Rightarrow> js_error + 'a list" where
  "promise_all [] = Inr []"
| "promise_all (p # ps) =
     (case p of
        Inl e \<Rightarrow> Inl e
      | Inr v \<Rightarrow> (case promise_all ps of Inl e \<Rightarrow> Inl e | Inr vs \<Rightarrow> Inr (v # vs)))"

text \<open>The body mapped over \<^verbatim>\<open>crawlers\<close>: the crawler's articles, or \<^verbatim>\<open>[]\<close> from the \<^verbatim>\<open>catch\<close>.\<close>

definition crawlerPromise :: "js_string \<Rightarrow> Crawler \<Rightarrow> js_error + Article list" where
  "crawlerPromise subjectId' crawler =
     (case fetchArticles crawler subjectId' of
        Inr articles \<Rightarrow> Inr articles
      | Inl error \<Rightarrow> Inr [])"

text \<open>\<^verbatim>\<open>allArticles.push(...articles)\<close> for each of the results, in order.\<close>

fun pushAll :: "Article list \<Rightarrow> Article list list \<Rightarrow> Article list" where
  "pushAll allArticles [] = allArticles"
| "pushAll allArticles (articles # results) = pushAll (allArticles @ articles) results"

definition fetchAllArticles :: "Crawler list \<Rightarrow> js_string \<Rightarrow> js_error + Article list" where
  "fetchAllArticles crawlers subjectId' =
     (let crawlerPromises = map (crawlerPromise subjectId') crawlers
      in (case promise_all crawlerPromises of
            Inl e \<Rightarrow> Inl e
          | Inr results \<Rightarrow> Inr (pushAll [] results)))"

section \<open>Engagement scorer\<close>

text \<open>A numeric literal denotes the binary64 value nearest to it.\<close>

definition DEFAULT_WEIGHTS :: ScoringWeights where
  "DEFAULT_WEIGHTS =
     \<lparr>upvotes_weight = fl 1, comments_weight = fl 2, shares_weight = fl (3 / 2),
      reactions_weight = fl (4 / 5), views_weight = fl (1 / 100)\<rparr>"

text \<open>\<^verbatim>\<open>v || 0\<close> for an optional number: 0 when \<open>v\<close> is absent, 0 or NaN.\<close>

definition orZero :: "number option \<Rightarrow> number" where
  "orZero v = (case v of None \<Rightarrow> Finite 0 | Some x \<Rightarrow> if falsy x then Finite 0 else x)"

text \<open>
  One statement \<^verbatim>\<open>if (engagement.m) { explanationParts.push(...) }\<close>: the branch is
  taken when the metric is present and neither 0 nor NaN, and pushes the metric, its
  name, its weight and its contribution to one decimal place.
\<close>

definition pushPart ::
  "js_string list \<Rightarrow> number option \<Rightarrow> js_string \<Rightarrow> number \<Rightarrow> number \<Rightarrow> js_string list"
where
  "pushPart explanationParts v metricName weight contribution =
     (case v of
        None \<Rightarrow> explanationParts
      | Some x \<Rightarrow>
          if falsy x then explanationParts
          else explanationParts @
                 [numberToString x @ str '' '' @ metricName @ str '' x ''
                    @ numberToString weight @ str '' = '' @ toFixed1 contribution])"

definition calculateEngagementScore :: "'a Article_scheme \<Rightarrow> ScoringWeights \<Rightarrow> ScoreBreakdown" where
  "calculateEngagementScore article weights =
     (let engagement' = engagement article;
          upvotesContribution' = fmul (orZero (upvotes engagement')) (upvotes_weight weights);
          commentsContribution' = fmul (orZero (comments engagement')) (comments_weight weights);
          sharesContribution' = fmul (orZero (shares engagement')) (shares_weight weights);
          reactionsContribution' =
            fmul (orZero (reactions engagement')) (reactions_weight weights);
          viewsContribution' = fmul (orZero (views engagement')) (views_weight weights);
          totalScore' =
            fadd (fadd (fadd (fadd upvotesContribution' commentsContribution')
              sharesContribution') reactionsContribution') viewsContribution';
          explanationParts = [];
          explanationParts =
            pushPart explanationParts (upvotes engagement') (str ''upvotes'')
              (upvotes_weight weights) upvotesContribution';
          explanationParts =
            pushPart explanationParts (comments engagement') (str ''comments'')
              (comments_weight weights) commentsContribution';
          explanationParts =
            pushPart explanationParts (shares engagement') (str ''shares'')
              (shares_weight weights) sharesContribution';
          explanationParts =
            pushPart explanationParts (reactions engagement') (str ''reactions'')
              (reactions_weight weights) reactionsContribution';
          explanationParts =
            pushPart explanationParts (views engagement') (str ''views'')
              (views_weight weights) viewsContribution';
          explanation' =
            (if length explanationParts > 0
             then str ''Score calculation: '' @ join (str '' + '') explanationParts
                    @ str '' = '' @ toFixed1 totalScore'
             else str ''No engagement metrics available'')
      in \<lparr>upvotesContribution = upvotesContribution',
          commentsContribution = commentsContribution',
          sharesContribution = sharesContribution',
          reactionsContribution = reactionsContribution',
          viewsContribution = viewsContribution',
          totalScore = totalScore',
          explanation = explanation'\<rparr>)"

text \<open>
  The object pushed for one article: the article's own fields, then the four added ones.
  \<^verbatim>\<open>match?.matchedKeywords || []\<close> and \<^verbatim>\<open>match?.relevanceScore || 0\<close> give the empty
  list and 0 when there is no match.
\<close>

definition scoreArticle ::
  "(js_string \<Rightarrow> js_string) \<Rightarrow> registry \<Rightarrow> js_string \<Rightarrow> ScoringWeights \<Rightarrow> Article
     \<Rightarrow> ScoredArticle"
where
  "scoreArticle toLowerCase subjects subjectId' weights article =
     (let scoreBreakdown' = calculateEngagementScore article weights;
          match = matchContent toLowerCase subjects
                    (title article @ str '' '' @ content article) subjectId'
      in Article.extend article
           \<lparr>engagementScore = totalScore scoreBreakdown',
            scoreBreakdown = scoreBreakdown',
            matchedKeywords_scored =
              (case match of None \<Rightarrow> [] | Some m \<Rightarrow> matchedKeywords m),
            relevanceScore_scored =
              (case match of None \<Rightarrow> 0 | Some m \<Rightarrow> relevanceScore m)\<rparr>)"

fun scoreLoop ::
  "(js_string \<Rightarrow> js_string) \<Rightarrow> registry \<Rightarrow> js_string \<Rightarrow> ScoringWeights
     \<Rightarrow> ScoredArticle list \<Rightarrow> Article list \<Rightarrow> ScoredArticle list"
where
  "scoreLoop toLowerCase subjects subjectId' weights scoredArticles [] = scoredArticles"
| "scoreLoop toLowerCase subjects subjectId' weights scoredArticles (article # articles) =
     scoreLoop toLowerCase subjects subjectId' weights
       (scoredArticles @ [scoreArticle toLowerCase subjects subjectId' weights article])
       articles"

definition scoreArticles ::
  "(js_string \<Rightarrow> js_string) \<Rightarrow> registry \<Rightarrow> Article list \<Rightarrow> js_string \<Rightarrow> ScoringWeights
     \<Rightarrow> ScoredArticle list"
where
  "scoreArticles toLowerCase subjects articles subjectId' weights =
     scoreLoop toLowerCase subjects subjectId' weights [] articles"

text \<open>
  The comparator of \<open>getTopArticles\<close>, and \<open>getTopArticles\<close>: \<^verbatim>\<open>sort\<close> then
  \<^verbatim>\<open>slice(0, limit)\<close>. \<^verbatim>\<open>sort\<close> also reorders the array it is given; the model has
  the returned array only.
\<close>

definition byEngagementScore :: "ScoredArticle \<Rightarrow> ScoredArticle \<Rightarrow> number" where
  "byEngagementScore a b = fsub (engagementScore b) (engagementScore a)"

definition getTopArticles :: "ScoredArticle list \<Rightarrow> number \<Rightarrow> ScoredArticle list" where
  "getTopArticles scoredArticles limit =
     slice (array_sort byEngagementScore scoredArticles) (Finite 0) limit"

section \<open>Content enricher\<close>

text \<open>
  \<^verbatim>\<open>content.split(/\s+/)\<close>: the parts of the text between its runs of white space; a
  text that begins or ends with white space has an empty first or last part.
\<close>

function splitWhiteSpace :: "js_string \<Rightarrow> js_string \<Rightarrow> js_string list" where
  "splitWhiteSpace word [] = [word]"
| "splitWhiteSpace word (c # cs) =
     (if isWhiteSpace c then word # splitWhiteSpace [] (dropWhile isWhiteSpace cs)
      else splitWhiteSpace (word @ [c]) cs)"
  by pat_completeness auto
termination
  by (relation "measure (\<lambda>(word, cs). length cs)")
     (auto simp: length_dropWhile_le less_Suc_eq_le)

text \<open>
  \<^verbatim>\<open>fetchArticleContent\<close> downloads a page and extracts its text, and returns the empty
  string when that fails. The enricher takes it as the function \<open>fetchArticleContent\<close>
  from the URL to the text.
\<close>

definition enrichArticle :: "(js_string \<Rightarrow> js_string) \<Rightarrow> ScoredArticle \<Rightarrow> ScoredArticle" where
  "enrichArticle fetchArticleContent article =
     (let content' = content article;
          content' =
            (if content' = [] \<or> length content' < 100
             then (let fetchedContent = fetchArticleContent (url article)
                   in if fetchedContent \<noteq> [] then fetchedContent else content')
             else (let words = slice (splitWhiteSpace [] content') (Finite 0) (Finite 300)
                   in join (str '' '') words))
      in article\<lparr>content := content'\<rparr>)"

definition enrichArticlesWithContent ::
  "(js_string \<Rightarrow> js_string) \<Rightarrow> ScoredArticle list \<Rightarrow> ScoredArticle list"
where
  "enrichArticlesWithContent fetchArticleContent articles =
     foldl (\<lambda>enrichedArticles article.
              enrichedArticles @ [enrichArticle fetchArticleContent article]) [] articles"

section \<open>HTTP interface\<close>

text \<open>
  A value of \<^verbatim>\<open>req.query\<close>: a text, a list of values (a parameter given several times)
  or an object (a parameter given with keys). \<^verbatim>\<open>parseInt\<close> first converts its
  argument to a string: a list to its values joined with commas, an object to
  \<^verbatim>\<open>[object Object]\<close>, and an absent parameter to \<^verbatim>\<open>undefined\<close>.
\<close>

datatype query_value = Text js_string | Values "query_value list" | Object

fun toString :: "query_value \<Rightarrow> js_string" where
  "toString (Text s) = s"
| "toString (Values vs) = join (str '','') (map toString vs)"
| "toString Object = str ''[object Object]''"

text \<open>
  \<^verbatim>\<open>parseInt(string)\<close> without a radix: leading white space is skipped, then an optional
  sign, then \<^verbatim>\<open>0x\<close> or \<^verbatim>\<open>0X\<close> selects radix 16, and the longest run of digits of the
  radix is read and rounded to a number; the result is NaN when that run is empty. (An
  implementation may read the decimal digits after the 20th as 0; the model reads them
  all.)
\<close>

definition digitValue :: "code_unit \<Rightarrow> int option" where
  "digitValue c =
     (let n = uint c
      in if 48 \<le> n \<and> n \<le> 57 then Some (n - 48)
         else if 97 \<le> n \<and> n \<le> 122 then Some (n - 87)
         else if 65 \<le> n \<and> n \<le> 90 then Some (n - 55)
         else None)"

definition isRadixDigit :: "int \<Rightarrow> code_unit \<Rightarrow> bool" where
  "isRadixDigit R c = (case digitValue c of None \<Rightarrow> False | Some d \<Rightarrow> d < R)"

definition digitsValue :: "int \<Rightarrow> js_string \<Rightarrow> int" where
  "digitsValue R Z =
     foldl (\<lambda>acc c. acc * R + (case digitValue c of None \<Rightarrow> 0 | Some d \<Rightarrow> d)) 0 Z"

definition parseInt :: "js_string \<Rightarrow> number" where
  "parseInt inputString =
     (let S = dropWhile isWhiteSpace inputString;
          sign = (if take 1 S = str ''-'' then - 1 else 1);
          S = (if take 1 S = str ''+'' \<or> take 1 S = str ''-'' then drop 1 S else S);
          hex = (take 2 S = str ''0x'' \<or> take 2 S = str ''0X'');
          R = (if hex then 16 else 10);
          S = (if hex then drop 2 S else S);
          Z = takeWhile (isRadixDigit R) S
      in if Z = [] then NaN else fl (of_int (sign * digitsValue R Z)))"

text \<open>\<^verbatim>\<open>parseInt(req.query.limit as string) || 10\<close>: 0 and NaN are falsy.\<close>

definition limitText :: "query_value option \<Rightarrow> js_string" where
  "limitText limitParam =
     (case limitParam of None \<Rightarrow> str ''undefined'' | Some v \<Rightarrow> toString v)"

definition requestLimit :: "query_value option \<Rightarrow> number" where
  "requestLimit limitParam =
     (let parsed = parseInt (limitText limitParam)
      in if falsy parsed then Finite 10 else parsed)"

text \<open>
  The body of a successful response; \<^verbatim>\<open>scoringMethod\<close>, a fixed text, is left out.
\<close>

record ArticlesBody =
  subject_body :: js_string
  totalFound :: nat
  returned :: nat
  weights_body :: ScoringWeights
  articles_body :: "ScoredArticle list"

datatype response =
  Ok ArticlesBody
| NotFound js_string
| ServerError js_string

text \<open>
  \<^verbatim>\<open>GET /api/articles/:subjectId\<close>. The limit is read first, an unknown subject is
  answered with 404, and a rejection inside the \<^verbatim>\<open>try\<close> block with 500.
\<close>

definition articlesHandler ::
  "(js_string \<Rightarrow> js_string) \<Rightarrow> registry \<Rightarrow> Crawler list \<Rightarrow> (js_string \<Rightarrow> js_string)
     \<Rightarrow> js_string \<Rightarrow> query_value option \<Rightarrow> response"
where
  "articlesHandler toLowerCase subjects crawlers fetchArticleContent subjectId' limitParam =
     (let limit = requestLimit limitParam
      in (case getSubject subjects subjectId' of
            None \<Rightarrow> NotFound (str ''Subject not found'')
          | Some subject \<Rightarrow>
              (case fetchAllArticles crawlers subjectId' of
                 Inl error \<Rightarrow> ServerError (str ''Failed to fetch articles'')
               | Inr articles \<Rightarrow>
                   (let scoredArticles =
                          scoreArticles toLowerCase subjects articles subjectId' DEFAULT_WEIGHTS;
                        topArticles = getTopArticles scoredArticles limit;
                        enrichedArticles =
                          enrichArticlesWithContent fetchArticleContent topArticles
                    in Ok \<lparr>subject_body = name subject,
                           totalFound = length articles,
                           returned = length enrichedArticles,
                           weights_body = DEFAULT_WEIGHTS,
                           articles_body = enrichedArticles\<rparr>))))"

section \<open>The specification's wording and the scenarios of the test suite\<close>

text \<open>
  The explanation as the specification words it: the listed metrics, in the fixed order,
  each rendered with its weight and its contribution, joined with \<^verbatim>\<open> + \<close> and followed
  by the total; \<open>leading\<close> is what comes before the list. \<open>presentNonZero\<close> lists the
  metrics that are present and not 0; \<open>listedMetrics\<close> lists those that are present and
  neither 0 nor NaN.
\<close>

definition metricEntries ::
  "EngagementMetrics \<Rightarrow> ScoringWeights \<Rightarrow> (number option \<times> js_string \<times> number) list"
where
  "metricEntries e w =
     [(upvotes e, str ''upvotes'', upvotes_weight w),
      (comments e, str ''comments'', comments_weight w),
      (shares e, str ''shares'', shares_weight w),
      (reactions e, str ''reactions'', reactions_weight w),
      (views e, str ''views'', views_weight w)]"

fun presentNonZero ::
  "(number option \<times> js_string \<times> number) list \<Rightarrow> (number \<times> js_string \<times> number) list"
where
  "presentNonZero [] = []"
| "presentNonZero ((None, metricName, weight) # entries) = presentNonZero entries"
| "presentNonZero ((Some x, metricName, weight) # entries) =
     (if x = Finite 0 then presentNonZero entries
      else (x, metricName, weight) # presentNonZero entries)"

fun listedMetrics ::
  "(number option \<times> js_string \<times> number) list \<Rightarrow> (number \<times> js_string \<times> number) list"
where
  "listedMetrics [] = []"
| "listedMetrics ((None, metricName, weight) # entries) = listedMetrics entries"
| "listedMetrics ((Some x, metricName, weight) # entries) =
     (if x = Finite 0 \<or> x = NaN then listedMetrics entries
      else (x, metricName, weight) # listedMetrics entries)"

definition renderMetric :: "number \<times> js_string \<times> number \<Rightarrow> js_string" where
  "renderMetric entry =
     (case entry of (x, metricName, weight) \<Rightarrow>
        numberToString x @ str '' '' @ metricName @ str '' x '' @ numberToString weight
          @ str '' = '' @ toFixed1 (fmul x weight))"

definition specExplanation ::
  "js_string \<Rightarrow> (number \<times> js_string \<times> number) list \<Rightarrow> number \<Rightarrow> js_string"
where
  "specExplanation leading entries score =
     (if entries = [] then str ''No engagement metrics available''
      else leading @ join (str '' + '') (map renderMetric entries) @ str '' = ''
             @ toFixed1 score)"



text \<open>The lists of the providers that did not fail, in the order of the providers.\<close>

fun healthyResults :: "(js_error + Article list) list \<Rightarrow> Article list list" where
  "healthyResults [] = []"
| "healthyResults (Inl e # outcomes) = healthyResults outcomes"
| "healthyResults (Inr articles # outcomes) = articles # healthyResults outcomes"

text \<open>
  A scored article whose score the comparator of \<open>getTopArticles\<close> orders: a binary64
  value other than NaN.
\<close>

definition hasOrderedScore :: "ScoredArticle \<Rightarrow> bool" where
  "hasOrderedScore a = (isBinary64 (engagementScore a) \<and> engagementScore a \<noteq> NaN)"

text \<open>The articles of the test suite.\<close>

definition scenarioMetrics :: EngagementMetrics where
  "scenarioMetrics =
     \<lparr>upvotes = Some (Finite 100), comments = Some (Finite 50), shares = Some (Finite 20),
      reactions = Some (Finite 30), views = Some (Finite 1000)\<rparr>"

definition testArticle :: "string \<Rightarrow> EngagementMetrics \<Rightarrow> Article" where
  "testArticle i metrics =
     \<lparr>id_article = str i, title = str ''Test Article'', url = str ''https://example.com'',
      content = str ''Test content'', source = str ''Test Source'', publishedAt = None,
      engagement = metrics\<rparr>"

definition explanationMetrics :: EngagementMetrics where
  "explanationMetrics =
     \<lparr>upvotes = Some (Finite 10), comments = Some (Finite 5), shares = None,
      reactions = None, views = None\<rparr>"

definition upvotesOnly :: "number \<Rightarrow> EngagementMetrics" where
  "upvotesOnly n =
     \<lparr>upvotes = Some n, comments = None, shares = None, reactions = None, views = None\<rparr>"

text \<open>
  Metrics with a NaN, and finite metrics whose contributions overflow: \<open>2 ^ 1023\<close>
  comments with weight 2, and as many negative shares as the largest number, with
  weight 1.5.
\<close>

definition nanMetrics :: EngagementMetrics where
  "nanMetrics =
     \<lparr>upvotes = Some NaN, comments = Some (Finite 5), shares = None, reactions = None,
      views = None\<rparr>"

definition overflowMetrics :: EngagementMetrics where
  "overflowMetrics =
     \<lparr>upvotes = None, comments = Some (Finite (2 ^ 1023)),
      shares = Some (Finite (- (2 ^ 1024 - 2 ^ 971))), reactions = None, views = None\<rparr>"

text \<open>A provider that returns the given articles, and one that fails.\<close>

definition healthyCrawler :: "string \<Rightarrow> Article list \<Rightarrow> Crawler" where
  "healthyCrawler n articles =
     \<lparr>name_crawler = str n, fetchArticles = (\<lambda>i. Inr articles)\<rparr>"

definition failingCrawler :: "string \<Rightarrow> Crawler" where
  "failingCrawler n =
     \<lparr>name_crawler = str n, fetchArticles = (\<lambda>i. Inl (Error (str ''Network Error'')))\<rparr>"

text \<open>\<^verbatim>\<open>createScoredArticle\<close> of the test suite.\<close>

definition createScoredArticle :: "string \<Rightarrow> number \<Rightarrow> ScoredArticle" where
  "createScoredArticle i score =
     \<lparr>id_article = str i, title = str ''Test'', url = str ''https://example.com'',
      content = str ''Test content'', source = str ''Test'', publishedAt = None,
      engagement = \<lparr>upvotes = None, comments = None, shares = None, reactions = None,
                     views = None\<rparr>,
      engagementScore = score,
      scoreBreakdown =
        \<lparr>upvotesContribution = Finite 0, commentsContribution = Finite 0,
         sharesContribution = Finite 0, reactionsContribution = Finite 0,
         viewsContribution = Finite 0, totalScore = score, explanation = []\<rparr>,
      matchedKeywords_scored = [], relevanceScore_scored = 0\<rparr>"

text \<open>
  Subjects that the registry accepts: one with an empty keyword, one that lists a related
  term twice, and the one that the test suite adds.
\<close>

definition emptyKeywordSubject :: Subject where
  "emptyKeywordSubject =
     \<lparr>id_subject = str ''blank'', name = str ''Blank'',
      description = str ''A subject with an empty keyword'',
      keywords_subject = [str ''''], relatedTerms = []\<rparr>"


definition testSubject :: Subject where
  "testSubject =
     \<lparr>id_subject = str ''test-subject'', name = str ''Test Subject'',
      description = str ''A test subject for testing'',
      keywords_subject = [str ''test'', str ''testing''],
      relatedTerms = [str ''unit test'', str ''integration test'']\<rparr>"

text \<open>A page download that fails.\<close>

definition noContent :: "js_string \<Rightarrow> js_string" where
  "noContent pageUrl = []"

section \<open>Properties of rounding\<close>

lemma pow2_powi: "pow2 e = power_int 2 e"
  by (simp add: pow2_def power_int_def field_simps)

lemma pow2_pos: "0 < pow2 e"
  by (simp add: pow2_powi)

lemma pow2_add: "pow2 (a + b) = pow2 a * pow2 b"
  by (simp add: pow2_powi power_int_add)

lemma pow2_le: "a \<le> b \<Longrightarrow> pow2 a \<le> pow2 b"
  by (simp add: pow2_powi power_int_increasing)

text \<open>\<open>binade\<close> finds the exponent of the power of 2 at or below a positive number.\<close>

lemma binade_bounds:
  assumes "0 < x"
  shows "pow2 (binade x) \<le> x \<and> x < pow2 (binade x + 1)"
proof -
  obtain p q where pq: "quotient_of x = (p, q)" by (cases "quotient_of x")
  have q: "0 < q" using pq quotient_of_denom_pos by blast
  have x: "x = of_int p / of_int q" using pq quotient_of_div by blast
  have p: "0 < p" using assms q x by (simp add: zero_less_divide_iff)
  let ?e0 = "bitlen p - bitlen q"
  have bp: "1 \<le> bitlen p" using p by (simp add: bitlen_alt_def)
  have bq: "1 \<le> bitlen q" using q by (simp add: bitlen_alt_def)
  have lp: "(2::rat) ^ nat (bitlen p - 1) \<le> of_int p"
    using bitlen_bounds[OF p] by (metis of_int_le_iff of_int_numeral of_int_power)
  have up: "of_int p < (2::rat) ^ nat (bitlen p)"
    using bitlen_bounds[OF p] by (metis of_int_less_iff of_int_numeral of_int_power)
  have lq: "(2::rat) ^ nat (bitlen q - 1) \<le> of_int q"
    using bitlen_bounds[OF q] by (metis of_int_le_iff of_int_numeral of_int_power)
  have uq: "of_int q < (2::rat) ^ nat (bitlen q)"
    using bitlen_bounds[OF q] by (metis of_int_less_iff of_int_numeral of_int_power)
  have q': "(0::rat) < of_int q" using q by simp
  have p': "(0::rat) < of_int p" using p by simp
  have below: "pow2 (?e0 - 1) < x"
  proof -
    have "pow2 (?e0 - 1) = pow2 (bitlen p - 1) / pow2 (bitlen q)"
      by (simp add: pow2_powi power_int_diff)
    also have "\<dots> = 2 ^ nat (bitlen p - 1) / 2 ^ nat (bitlen q)"
      using bp bq by (simp add: pow2_def)
    also have "\<dots> < of_int p / of_int q"
      using lp uq q' by (intro frac_less2) simp_all
    finally show ?thesis using x by simp
  qed
  have above: "x < pow2 (?e0 + 1)"
  proof -
    have "(of_int p :: rat) / of_int q < 2 ^ nat (bitlen p) / 2 ^ nat (bitlen q - 1)"
      using up lq p' by (intro frac_less) simp_all
    also have "\<dots> = pow2 (bitlen p) / pow2 (bitlen q - 1)"
      using bp bq by (simp add: pow2_def)
    also have "\<dots> = pow2 (?e0 + 1)"
    proof -
      have "pow2 (?e0 + 1) * pow2 (bitlen q - 1) = pow2 (bitlen p)"
        using pow2_add[of "?e0 + 1" "bitlen q - 1"] by simp
      then show ?thesis
        using pow2_pos[of "bitlen q - 1"] by (simp add: nonzero_divide_eq_eq)
    qed
    finally show ?thesis using x by simp
  qed
  show ?thesis
  proof (cases "pow2 ?e0 \<le> x")
    case True
    then have "binade x = ?e0" by (simp add: binade_def pq Let_def)
    with True above show ?thesis by simp
  next
    case False
    then have "binade x = ?e0 - 1" by (simp add: binade_def pq Let_def)
    with False below show ?thesis by simp
  qed
qed

lemma round_half_even_ge_floor: "\<lfloor>q\<rfloor> \<le> round_half_even q"
  by (simp add: round_half_even_def Let_def)

lemma round_half_even_nonneg: "0 \<le> q \<Longrightarrow> 0 \<le> round_half_even q"
  using round_half_even_ge_floor[of q] by (simp add: order_trans[of 0 "\<lfloor>q\<rfloor>"])

lemma fl_zero: "fl 0 = Finite 0"
  by (simp add: fl_def)

lemma fl_not_NaN: "fl x \<noteq> NaN"
  by (simp add: fl_def Let_def)

lemma magnitude_nonneg: "0 \<le> magnitude x"
proof -
  have "0 \<le> \<bar>x\<bar> / pow2 (max (binade \<bar>x\<bar>) (- 1022) - 52)"
    using pow2_pos[of "max (binade \<bar>x\<bar>) (- 1022) - 52"] by simp
  then have "0 \<le> round_half_even (\<bar>x\<bar> / pow2 (max (binade \<bar>x\<bar>) (- 1022) - 52))"
    by (rule round_half_even_nonneg)
  then show ?thesis
    using pow2_pos[of "max (binade \<bar>x\<bar>) (- 1022) - 52"] by (simp add: magnitude_def)
qed

lemma fl_cases:
  assumes "x \<noteq> 0"
  shows "fl x = (if 0 < x then PosInf else NegInf) \<or> fl x = Finite (sgn x * magnitude x)"
  using assms by (simp add: fl_def Let_def magnitude_def)

text \<open>Rounding does not turn a number that is not positive into a positive one.\<close>

lemma fl_nonpos:
  assumes "z \<le> 0"
  shows "\<not> isPositive (fl z)"
proof (cases "z = 0")
  case True
  then show ?thesis by (simp add: fl_zero)
next
  case False
  then have neg: "z < 0" using assms by simp
  then have "sgn z * magnitude z \<le> 0"
    using magnitude_nonneg[of z] by (simp add: mult_le_0_iff)
  then show ?thesis using fl_cases[OF False] neg by auto
qed

text \<open>The least positive binary64 value is \<open>2 ^ - 1074\<close>: from it on, rounding is positive.\<close>

lemma fl_pos:
  assumes "pow2 (- 1074) \<le> z"
  shows "isPositive (fl z)"
proof -
  have pos: "0 < z" using assms pow2_pos[of "- 1074"] by simp
  let ?e = "max (binade \<bar>z\<bar>) (- 1022) - 52"
  have "pow2 ?e \<le> z"
  proof (cases "- 1022 \<le> binade z")
    case True
    then have "pow2 ?e \<le> pow2 (binade z)" using pos by (intro pow2_le) simp
    then show ?thesis using binade_bounds[OF pos] by simp
  next
    case False
    then have "?e = - 1074" using pos by simp
    then show ?thesis using assms by simp
  qed
  then have "1 \<le> \<bar>z\<bar> / pow2 ?e" using pos pow2_pos[of ?e] by (simp add: pos_le_divide_eq)
  then have "1 \<le> \<lfloor>\<bar>z\<bar> / pow2 ?e\<rfloor>" by (simp add: le_floor_iff)
  then have "1 \<le> round_half_even (\<bar>z\<bar> / pow2 ?e)"
    using round_half_even_ge_floor[of "\<bar>z\<bar> / pow2 ?e"] by linarith
  then have "0 < rat_of_int (round_half_even (\<bar>z\<bar> / pow2 ?e))" by simp
  then have "0 < magnitude z"
    using pow2_pos[of ?e] by (simp add: magnitude_def)
  then have "0 < sgn z * magnitude z" using pos by simp
  then show ?thesis using fl_cases[of z] pos by auto
qed

text \<open>A number of magnitude \<open>2 ^ 1024\<close> or more is rounded to an infinity.\<close>

lemma fl_overflow:
  assumes "pow2 1024 \<le> \<bar>x\<bar>"
  shows "fl x = (if 0 < x then PosInf else NegInf)"
proof -
  have pos: "0 < \<bar>x\<bar>" using assms pow2_pos[of 1024] by linarith
  have "1024 \<le> binade \<bar>x\<bar>"
  proof (rule ccontr)
    assume "\<not> 1024 \<le> binade \<bar>x\<bar>"
    then have "pow2 (binade \<bar>x\<bar> + 1) \<le> pow2 1024" by (intro pow2_le) simp
    then show False using binade_bounds[OF pos] assms by simp
  qed
  then show ?thesis using pos by (simp add: fl_def Let_def)
qed

text \<open>A finite binary64 value is a multiple of \<open>2 ^ - 1074\<close>.\<close>

lemma binary64_multiple:
  assumes "fl x = Finite x"
  shows "\<exists>k::int. x = of_int k * pow2 (- 1074)"
proof (cases "x = 0")
  case True
  then show ?thesis by (intro exI[of _ 0]) simp
next
  case False
  let ?e = "max (binade \<bar>x\<bar>) (- 1022) - 52"
  let ?m = "round_half_even (\<bar>x\<bar> / pow2 ?e)"
  have "Finite x \<noteq> (if 0 < x then PosInf else NegInf)" by simp
  then have "fl x = Finite (sgn x * magnitude x)"
    using fl_cases[OF False] assms by metis
  then have x: "x = sgn x * (of_int ?m * pow2 ?e)"
    using assms by (simp add: magnitude_def)
  have "0 \<le> ?e + 1074" by simp
  then have "pow2 (?e + 1074) = of_int (2 ^ nat (?e + 1074))"
    by (simp add: pow2_def)
  moreover have "pow2 ?e = pow2 (?e + 1074) * pow2 (- 1074)"
    using pow2_add[of "?e + 1074" "- 1074"] by simp
  ultimately have e: "pow2 ?e = of_int (2 ^ nat (?e + 1074)) * pow2 (- 1074)"
    by simp
  have s: "sgn x = of_int (if 0 < x then 1 else - 1)"
    using False by (simp add: sgn_if)
  have "x = of_int ((if 0 < x then 1 else - 1) * ?m * 2 ^ nat (?e + 1074)) * pow2 (- 1074)"
    by (subst x, subst e, subst s) (simp add: mult.assoc)
  then show ?thesis by blast
qed

text \<open>The difference of two finite binary64 values is rounded to a number of its sign.\<close>

lemma fl_difference_positive:
  assumes "fl x = Finite x" and "fl y = Finite y"
  shows "isPositive (fl (y - x)) \<longleftrightarrow> x < y"
proof (cases "x < y")
  case True
  obtain k l :: int where k: "x = of_int k * pow2 (- 1074)" and l: "y = of_int l * pow2 (- 1074)"
    using binary64_multiple[OF assms(1)] binary64_multiple[OF assms(2)] by blast
  have "rat_of_int k < of_int l"
    using True pow2_pos[of "- 1074"] unfolding k l by (simp add: mult_less_cancel_right)
  then have "1 \<le> l - k" by simp
  then have "(1::rat) \<le> of_int (l - k)" by (metis of_int_1_le_iff)
  then have "1 * pow2 (- 1074) \<le> of_int (l - k) * pow2 (- 1074)"
    using pow2_pos[of "- 1074"] by (intro mult_right_mono) simp_all
  then have "pow2 (- 1074) \<le> y - x" unfolding k l by (simp add: algebra_simps)
  then show ?thesis using True fl_pos by simp
next
  case False
  then have "y - x \<le> 0" by simp
  then show ?thesis using False fl_nonpos by simp
qed

section \<open>Properties of sorting and slicing\<close>

lemma lessEq_refl: "v \<noteq> NaN \<Longrightarrow> lessEq v v"
  by (cases v) (simp_all add: lessEq_def)

lemma lessEq_total: "a \<noteq> NaN \<Longrightarrow> b \<noteq> NaN \<Longrightarrow> \<not> lessEq a b \<Longrightarrow> lessEq b a"
  by (cases a; cases b) (simp_all add: lessEq_def)

lemma lessEq_trans: "lessEq a b \<Longrightarrow> lessEq b c \<Longrightarrow> lessEq a c"
  by (cases a; cases b; cases c) (simp_all add: lessEq_def)

lemma lessEq_not_NaN: "lessEq a b \<Longrightarrow> a \<noteq> NaN \<and> b \<noteq> NaN"
  by (cases a; cases b) (simp_all add: lessEq_def)

text \<open>
  On scores that are binary64 values other than NaN, the comparator puts \<open>a\<close> after
  \<open>b\<close> exactly when the score of \<open>b\<close> is greater.
\<close>

lemma fsub_positive:
  assumes "isBinary64 u" and "u \<noteq> NaN" and "isBinary64 v" and "v \<noteq> NaN"
  shows "isPositive (fsub v u) \<longleftrightarrow> \<not> lessEq v u"
proof (cases u)
  case (Finite x)
  show ?thesis
  proof (cases v)
    case (Finite y)
    have "fl x = Finite x" and "fl y = Finite y"
      using assms \<open>u = Finite x\<close> Finite by (simp_all add: isBinary64_def)
    then have "isPositive (fl (y - x)) \<longleftrightarrow> x < y"
      by (rule fl_difference_positive)
    then show ?thesis
      using \<open>u = Finite x\<close> Finite by (simp add: fsub_def fadd_def lessEq_def not_le)
  qed (use assms Finite in \<open>simp_all add: fsub_def fadd_def lessEq_def\<close>)
qed (use assms in \<open>cases v; simp add: fsub_def fadd_def lessEq_def\<close>)+

lemma byEngagementScore_positive:
  assumes "hasOrderedScore a" and "hasOrderedScore b"
  shows "isPositive (byEngagementScore a b) \<longleftrightarrow>
         \<not> lessEq (engagementScore b) (engagementScore a)"
  using assms fsub_positive[of "engagementScore a" "engagementScore b"]
  by (simp add: byEngagementScore_def hasOrderedScore_def)

lemma mset_sort_insert: "mset (sort_insert comparefn x ys) = add_mset x (mset ys)"
  by (induction ys) simp_all

lemma mset_array_sort: "mset (array_sort comparefn xs) = mset xs"
  by (induction xs) (simp_all add: array_sort_def mset_sort_insert)

lemma set_array_sort: "set (array_sort comparefn xs) = set xs"
  using mset_array_sort[of comparefn xs] by (metis set_mset_mset)

lemma length_array_sort: "length (array_sort comparefn xs) = length xs"
  using mset_array_sort[of comparefn xs] by (metis size_mset)

lemma set_sort_insert: "set (sort_insert comparefn x ys) = insert x (set ys)"
  using mset_sort_insert[of comparefn x ys] by (metis set_mset_add_mset_insert set_mset_mset)

lemma sorted_sort_insert:
  assumes "hasOrderedScore x" and "list_all hasOrderedScore ys"
    and "sorted_wrt (\<lambda>a b. lessEq (engagementScore b) (engagementScore a)) ys"
  shows "sorted_wrt (\<lambda>a b. lessEq (engagementScore b) (engagementScore a))
           (sort_insert byEngagementScore x ys)"
  using assms(2,3)
proof (induction ys)
  case Nil
  then show ?case by simp
next
  case (Cons y ys)
  have y: "hasOrderedScore y" and ys: "list_all hasOrderedScore ys"
    using Cons.prems(1) by simp_all
  show ?case
  proof (cases "isPositive (byEngagementScore x y)")
    case True
    then have "\<not> lessEq (engagementScore y) (engagementScore x)"
      using byEngagementScore_positive[OF assms(1) y] by simp
    then have "lessEq (engagementScore x) (engagementScore y)"
      using assms(1) y by (intro lessEq_total) (simp_all add: hasOrderedScore_def)
    moreover have "sorted_wrt (\<lambda>a b. lessEq (engagementScore b) (engagementScore a))
        (sort_insert byEngagementScore x ys)"
      using Cons.IH[OF ys] Cons.prems(2) by simp
    ultimately show ?thesis
      using True Cons.prems(2) by (auto simp: set_sort_insert)
  next
    case False
    then have first: "lessEq (engagementScore y) (engagementScore x)"
      using byEngagementScore_positive[OF assms(1) y] by simp
    have "lessEq (engagementScore z) (engagementScore x)" if "z \<in> set ys" for z
      using that first Cons.prems(2) by (auto intro: lessEq_trans)
    then show ?thesis
      using False first Cons.prems(2) by auto
  qed
qed

lemma ordered_array_sort:
  "list_all hasOrderedScore xs \<Longrightarrow> list_all hasOrderedScore (array_sort comparefn xs)"
  by (simp add: list_all_iff set_array_sort)

lemma sorted_array_sort:
  assumes "list_all hasOrderedScore xs"
  shows "sorted_wrt (\<lambda>a b. lessEq (engagementScore b) (engagementScore a))
           (array_sort byEngagementScore xs)"
  using assms
proof (induction xs)
  case Nil
  then show ?case by (simp add: array_sort_def)
next
  case (Cons x xs)
  then have "sorted_wrt (\<lambda>a b. lessEq (engagementScore b) (engagementScore a))
      (array_sort byEngagementScore xs)"
    by simp
  moreover have "list_all hasOrderedScore (array_sort byEngagementScore xs)"
    using Cons.prems by (intro ordered_array_sort) simp
  moreover have "hasOrderedScore x" using Cons.prems by simp
  ultimately have "sorted_wrt (\<lambda>a b. lessEq (engagementScore b) (engagementScore a))
      (sort_insert byEngagementScore x (array_sort byEngagementScore xs))"
    by (intro sorted_sort_insert)
  then show ?case by (simp add: array_sort_def)
qed

text \<open>Stability: an element does not pass one of its own score.\<close>

lemma filter_sort_insert:
  assumes "hasOrderedScore x" and "list_all hasOrderedScore ys"
  shows "filter (\<lambda>a. engagementScore a = k) (sort_insert byEngagementScore x ys) =
           filter (\<lambda>a. engagementScore a = k) (x # ys)"
  using assms(2)
proof (induction ys)
  case Nil
  then show ?case by simp
next
  case (Cons y ys)
  have y: "hasOrderedScore y" and ys: "list_all hasOrderedScore ys"
    using Cons.prems by simp_all
  show ?case
  proof (cases "isPositive (byEngagementScore x y)")
    case True
    then have "\<not> lessEq (engagementScore y) (engagementScore x)"
      using byEngagementScore_positive[OF assms(1) y] by simp
    then have "engagementScore y \<noteq> engagementScore x"
      using lessEq_refl[of "engagementScore x"] assms(1) by (auto simp: hasOrderedScore_def)
    then show ?thesis using True Cons.IH[OF ys] by auto
  next
    case False
    then show ?thesis by simp
  qed
qed

lemma filter_array_sort:
  assumes "list_all hasOrderedScore xs"
  shows "filter (\<lambda>a. engagementScore a = k) (array_sort byEngagementScore xs) =
           filter (\<lambda>a. engagementScore a = k) xs"
  using assms
proof (induction xs)
  case Nil
  then show ?case by (simp add: array_sort_def)
next
  case (Cons x xs)
  have "filter (\<lambda>a. engagementScore a = k)
      (sort_insert byEngagementScore x (array_sort byEngagementScore xs)) =
      filter (\<lambda>a. engagementScore a = k) (x # array_sort byEngagementScore xs)"
    using Cons.prems by (intro filter_sort_insert ordered_array_sort) simp_all
  then show ?case using Cons by (simp add: array_sort_def)
qed


lemma relativeIndex_zero: "relativeIndex len (Finite 0) = 0"
  by simp

lemma relativeIndex_of_int:
  "relativeIndex len (Finite (of_int l)) =
     (if 0 \<le> l then min (nat l) len else len - nat (- l))"
  by (simp add: Let_def min_def max_def) linarith

lemma relativeIndex_le: "relativeIndex len v \<le> len"
proof (cases v)
  case (Finite x)
  have "(if i < 0 then nat (max (int len + i) 0) else nat (min i (int len))) \<le> len"
    for i :: int
    by (auto simp: max_def min_def)
  then show ?thesis unfolding Finite relativeIndex.simps Let_def .
qed simp_all

lemma getTopArticles_take:
  "getTopArticles xs limit =
     take (relativeIndex (length xs) limit) (array_sort byEngagementScore xs)"
  by (simp add: getTopArticles_def slice_def Let_def length_array_sort)


section \<open>Properties of the matcher\<close>

lemma matchTerms_filter:
  "matchTerms toLowerCase lc points terms (matched, score) =
     (matched @ filter (\<lambda>t. string_includes lc (toLowerCase t)) terms,
      score + points * int (length (filter (\<lambda>t. string_includes lc (toLowerCase t)) terms)))"
  by (induction terms arbitrary: matched score) (simp_all add: algebra_simps)

lemma matchContent_registered:
  assumes "getSubject subjects i = Some subject"
  shows "matchContent toLowerCase subjects text i =
     (let hit = (\<lambda>t. string_includes (toLowerCase text) (toLowerCase t));
          ks = filter hit (keywords_subject subject);
          rs = filter hit (relatedTerms subject)
      in if ks @ rs = [] then None
         else Some \<lparr>subjectId = i, matchedKeywords = ks @ rs,
                     relevanceScore = 10 * int (length ks) + 5 * int (length rs)\<rparr>)"
  using assms by (simp add: matchContent_def getSubject_def matchTerms_filter Let_def)

lemma includes_empty_text: "string_includes [] t \<longleftrightarrow> t = []"
  by (simp add: string_includes_def)

section \<open>Properties of the aggregator and of the scoring loop\<close>

lemma pushAll_concat: "pushAll allArticles results = allArticles @ concat results"
  by (induction results arbitrary: allArticles) simp_all

lemma promise_all_crawlerPromise:
  "promise_all (map (crawlerPromise i) crawlers) =
     Inr (map (\<lambda>c. case fetchArticles c i of Inl e \<Rightarrow> [] | Inr articles \<Rightarrow> articles) crawlers)"
  by (induction crawlers) (simp_all add: crawlerPromise_def split: sum.splits)

lemma concat_healthyResults:
  "concat (map (\<lambda>c. case fetchArticles c i of Inl e \<Rightarrow> [] | Inr articles \<Rightarrow> articles) crawlers) =
     concat (healthyResults (map (\<lambda>crawler. fetchArticles crawler i) crawlers))"
  by (induction crawlers) (simp_all split: sum.splits)

lemma scoreLoop_map:
  "scoreLoop toLowerCase subjects i weights scoredArticles articles =
     scoredArticles @ map (scoreArticle toLowerCase subjects i weights) articles"
  by (induction articles arbitrary: scoredArticles) simp_all

lemma scoreArticles_map:
  "scoreArticles toLowerCase subjects articles i weights =
     map (scoreArticle toLowerCase subjects i weights) articles"
  by (simp add: scoreArticles_def scoreLoop_map)

lemma truncate_scoreArticle:
  "Article.truncate (scoreArticle toLowerCase subjects i weights a) = a"
  by (simp add: scoreArticle_def Let_def Article.truncate_def Article.extend_def)

lemma engagementScore_scoreArticle:
  "engagementScore (scoreArticle toLowerCase subjects i weights a) =
     totalScore (scoreBreakdown (scoreArticle toLowerCase subjects i weights a))"
  by (simp add: scoreArticle_def Let_def Article.extend_def)

lemma engagementScore_scoreArticle_calc:
  "engagementScore (scoreArticle toLowerCase subjects i weights a) =
     totalScore (calculateEngagementScore a weights)"
  by (simp add: scoreArticle_def Let_def Article.extend_def)

lemma strictEquals_same: "strictEquals v v \<longleftrightarrow> v \<noteq> NaN"
  by (simp add: strictEquals_def)

section \<open>Properties of the engagement score\<close>

lemma pushPart_renderMetric:
  "pushPart parts v metricName weight (fmul (orZero v) weight) =
     parts @ map renderMetric (listedMetrics [(v, metricName, weight)])"
  by (cases v) (auto simp: pushPart_def renderMetric_def orZero_def falsy_def)

lemma listedMetrics_Cons:
  "listedMetrics (entry # entries) = listedMetrics [entry] @ listedMetrics entries"
proof (cases entry)
  case (fields v metricName weight)
  then show ?thesis by (cases v) simp_all
qed

lemma explanationParts_listedMetrics:
  "pushPart (pushPart (pushPart (pushPart (pushPart []
      (upvotes e) (str ''upvotes'') (upvotes_weight w)
        (fmul (orZero (upvotes e)) (upvotes_weight w)))
      (comments e) (str ''comments'') (comments_weight w)
        (fmul (orZero (comments e)) (comments_weight w)))
      (shares e) (str ''shares'') (shares_weight w)
        (fmul (orZero (shares e)) (shares_weight w)))
      (reactions e) (str ''reactions'') (reactions_weight w)
        (fmul (orZero (reactions e)) (reactions_weight w)))
      (views e) (str ''views'') (views_weight w)
        (fmul (orZero (views e)) (views_weight w)) =
   map renderMetric (listedMetrics (metricEntries e w))"
proof -
  have "listedMetrics (metricEntries e w) =
      listedMetrics [(upvotes e, str ''upvotes'', upvotes_weight w)] @
      listedMetrics [(comments e, str ''comments'', comments_weight w)] @
      listedMetrics [(shares e, str ''shares'', shares_weight w)] @
      listedMetrics [(reactions e, str ''reactions'', reactions_weight w)] @
      listedMetrics [(views e, str ''views'', views_weight w)]"
    unfolding metricEntries_def
    by (subst listedMetrics_Cons, subst (2) listedMetrics_Cons,
        subst (3) listedMetrics_Cons, subst (4) listedMetrics_Cons) (rule refl)
  then show ?thesis
    by (simp only: pushPart_renderMetric map_append append_Nil append_assoc)
qed

lemma totalScore_calc:
  "totalScore (calculateEngagementScore article weights) =
     fadd (fadd (fadd (fadd
       (fmul (orZero (upvotes (engagement article))) (upvotes_weight weights))
       (fmul (orZero (comments (engagement article))) (comments_weight weights)))
       (fmul (orZero (shares (engagement article))) (shares_weight weights)))
       (fmul (orZero (reactions (engagement article))) (reactions_weight weights)))
       (fmul (orZero (views (engagement article))) (views_weight weights))"
  by (simp add: calculateEngagementScore_def Let_def)

lemma scenario_sum:
  "fadd (fadd (fadd (fadd (fmul (Finite 100) (fl 1)) (fmul (Finite 50) (fl 2)))
     (fmul (Finite 20) (fl (3 / 2)))) (fmul (Finite 30) (fl (4 / 5))))
     (fmul (Finite 1000) (fl (1 / 100))) = Finite 264"
  by code_simp

text \<open>
  The contributions of the metrics that overflow: \<open>2 ^ 1023\<close> times 2 is \<open>2 ^ 1024\<close>, and
  the largest number times 1.5 is more than \<open>2 ^ 1024\<close>.
\<close>

lemma default_weight_values:
  "fl 1 = Finite 1" "fl 2 = Finite 2" "fl (3 / 2) = Finite (3 / 2)"
  by code_simp+

lemma pow2_1024: "pow2 1024 = 2 ^ 1024"
  by (simp add: pow2_powi)

lemma comments_overflow: "fmul (Finite (2 ^ 1023)) (fl 2) = PosInf"
proof -
  have "(2::rat) ^ 1023 * 2 = 2 ^ 1024"
    by simp
  then have "pow2 1024 \<le> \<bar>(2::rat) ^ 1023 * 2\<bar>"
    by (simp only: pow2_1024 abs_of_pos zero_less_power zero_less_numeral order_refl)
  then have "fl (2 ^ 1023 * 2) = PosInf"
    using fl_overflow[of "2 ^ 1023 * 2"] by simp
  then show ?thesis
    by (simp add: fmul_def default_weight_values)
qed

lemma shares_overflow: "fmul (Finite (- (2 ^ 1024 - 2 ^ 971))) (fl (3 / 2)) = NegInf"
proof -
  define a :: rat where "a = 2 ^ 971"
  have a: "0 < a" by (simp add: a_def)
  have split: "(2::rat) ^ 1024 = 2 ^ 53 * a"
    by (simp add: a_def power_add[symmetric])
  have "2 ^ 53 * a \<le> (2 ^ 53 * a - a) * (3 / 2)"
    using a by (simp add: algebra_simps)
  then have "pow2 1024 \<le> \<bar>- (2 ^ 1024 - 2 ^ 971) * (3 / 2)\<bar>"
    unfolding pow2_1024 split a_def[symmetric] by (simp add: abs_mult)
  moreover have "\<not> 0 < - ((2::rat) ^ 1024 - 2 ^ 971) * (3 / 2)"
    unfolding split a_def[symmetric] using a by (simp add: algebra_simps)
  ultimately have "fl (- (2 ^ 1024 - 2 ^ 971) * (3 / 2)) = NegInf"
    using fl_overflow[of "- (2 ^ 1024 - 2 ^ 971) * (3 / 2)"] by (simp only: if_False)
  then show ?thesis
    by (simp only: fmul_def default_weight_values prod.case number.case)
qed

lemma fadd_NaN: "fadd NaN v = NaN"
  by (simp add: fadd_def)

lemma overflow_total:
  "totalScore (calculateEngagementScore (testArticle i overflowMetrics) DEFAULT_WEIGHTS) = NaN"
proof -
  have "fmul (Finite 0) (fl 1) = Finite 0"
    by (simp add: fmul_def default_weight_values fl_zero)
  moreover have "fadd (fadd (Finite 0) PosInf) NegInf = NaN"
    by (simp add: fadd_def)
  ultimately show ?thesis
    by (simp add: totalScore_calc testArticle_def overflowMetrics_def DEFAULT_WEIGHTS_def
        orZero_def falsy_def comments_overflow shares_overflow fadd_NaN
        del: power_numeral minus_diff_eq)
qed

section \<open>Properties of the request limit\<close>

lemma parseInt_cases: "parseInt s = NaN \<or> (\<exists>k. parseInt s = fl (of_int k))"
  unfolding parseInt_def Let_def by metis

text \<open>Rounding a number that is 1 or more gives 1 or more.\<close>

lemma fl_ge_one:
  assumes "1 \<le> a"
  shows "fl a = PosInf \<or> (\<exists>y. fl a = Finite y \<and> 1 \<le> y)"
proof -
  have pos: "0 < a" using assms by simp
  have b: "0 \<le> binade a"
  proof (rule ccontr)
    assume "\<not> 0 \<le> binade a"
    then have "pow2 (binade a + 1) \<le> pow2 0" by (intro pow2_le) simp
    then have "a < 1" using binade_bounds[OF pos] by (simp add: pow2_powi)
    with assms show False by simp
  qed
  let ?e = "binade a - 52"
  let ?m = "round_half_even (a / pow2 ?e)"
  have e: "max (binade \<bar>a\<bar>) (- 1022) - 52 = ?e" using b pos by simp
  have "pow2 52 * pow2 ?e = pow2 (binade a)"
    using pow2_add[of 52 ?e] by simp
  then have "pow2 52 * pow2 ?e \<le> a" using binade_bounds[OF pos] by simp
  then have "pow2 52 \<le> a / pow2 ?e" using pow2_pos[of ?e] by (simp add: pos_le_divide_eq)
  moreover have "pow2 52 = of_int (2 ^ 52)" by (simp add: pow2_powi)
  ultimately have "2 ^ 52 \<le> \<lfloor>a / pow2 ?e\<rfloor>" by (simp add: le_floor_iff)
  then have "2 ^ 52 \<le> ?m" using round_half_even_ge_floor[of "a / pow2 ?e"] by linarith
  then have "(2::rat) ^ 52 \<le> of_int ?m"
    by (metis of_int_le_iff of_int_numeral of_int_power)
  then have "2 ^ 52 * pow2 ?e \<le> of_int ?m * pow2 ?e"
    using pow2_pos[of ?e] by simp
  moreover have "(2::rat) ^ 52 * pow2 ?e = pow2 (binade a)"
    using pow2_add[of 52 ?e] by (simp add: pow2_powi)
  ultimately have "pow2 (binade a) \<le> of_int ?m * pow2 ?e" by simp
  moreover have "pow2 0 \<le> pow2 (binade a)" using b by (rule pow2_le)
  moreover have "pow2 0 = 1" by (simp add: pow2_powi)
  ultimately have "1 \<le> of_int ?m * pow2 ?e" by linarith
  moreover have "magnitude a = of_int ?m * pow2 ?e"
    using pos unfolding magnitude_def e by simp
  ultimately have "1 \<le> sgn a * magnitude a" using pos by simp
  then show ?thesis using fl_cases[of a] pos by auto
qed

text \<open>
  A limit that is positive after the default is applied selects at least one article of
  a non-empty array.
\<close>

lemma requestLimit_not_falsy: "\<not> falsy (requestLimit limitParam)"
  by (simp add: requestLimit_def Let_def falsy_def)

lemma positive_limit_index:
  assumes "isPositive (requestLimit limitParam)" and "0 < len"
  shows "0 < relativeIndex len (requestLimit limitParam)"
proof -
  have "requestLimit limitParam = PosInf
      \<or> (\<exists>y. requestLimit limitParam = Finite y \<and> 1 \<le> y)"
  proof (cases "falsy (parseInt (limitText limitParam))")
    case True
    then show ?thesis by (simp add: requestLimit_def)
  next
    case False
    then have limit: "requestLimit limitParam = parseInt (limitText limitParam)"
      by (simp add: requestLimit_def)
    with False parseInt_cases[of "limitText limitParam"]
    obtain k where k: "requestLimit limitParam = fl (of_int k)"
      by (auto simp: falsy_def)
    have "\<not> of_int k \<le> (0::rat)"
      using fl_nonpos[of "of_int k"] assms(1) k by auto
    then have "(1::rat) \<le> of_int k" by simp
    from fl_ge_one[OF this] k show ?thesis by simp
  qed
  then show ?thesis
  proof
    assume "requestLimit limitParam = PosInf"
    then show ?thesis using assms(2) by simp
  next
    assume "\<exists>y. requestLimit limitParam = Finite y \<and> 1 \<le> y"
    then obtain y where y: "requestLimit limitParam = Finite y" "1 \<le> y" by blast
    then have "1 \<le> \<lfloor>y\<rfloor>" by (simp add: le_floor_iff)
    then show ?thesis using y assms(2) by (simp add: Let_def min_def)
  qed
qed

section \<open>Properties of the handler's pipeline\<close>

lemma fetchAllArticles_results:
  "fetchAllArticles crawlers i =
     Inr (concat (map (\<lambda>c. case fetchArticles c i of Inl e \<Rightarrow> [] | Inr articles \<Rightarrow> articles)
            crawlers))"
  by (simp add: fetchAllArticles_def promise_all_crawlerPromise pushAll_concat)

lemma enrichLoop_map:
  "foldl (\<lambda>enrichedArticles article. enrichedArticles @ [enrichArticle f article]) acc articles =
     acc @ map (enrichArticle f) articles"
  by (induction articles arbitrary: acc) simp_all

lemma enrichArticlesWithContent_map:
  "enrichArticlesWithContent f articles = map (enrichArticle f) articles"
  by (simp add: enrichArticlesWithContent_def enrichLoop_map)

lemma getTopArticles_zero: "getTopArticles scoredArticles (Finite 0) = []"
  by (simp add: getTopArticles_take)

lemma positive_limit_nonempty:
  assumes "isPositive (requestLimit limitParam)" and "scoredArticles \<noteq> []"
  shows "getTopArticles scoredArticles (requestLimit limitParam) \<noteq> []"
proof -
  have "0 < length scoredArticles" using assms(2) by simp
  from positive_limit_index[OF assms(1) this]
  show ?thesis
    using assms(2) length_array_sort[of byEngagementScore scoredArticles]
    by (auto simp: getTopArticles_take)
qed

section \<open>Numbers that rounding leaves unchanged\<close>

lemma binade_unique:
  assumes "0 < x" and "pow2 e \<le> x" and "x < pow2 (e + 1)"
  shows "binade x = e"
proof (rule ccontr)
  assume "binade x \<noteq> e"
  then consider "binade x + 1 \<le> e" | "e + 1 \<le> binade x" by linarith
  then show False
  proof cases
    case 1
    then have "pow2 (binade x + 1) \<le> pow2 e" by (rule pow2_le)
    then show False using binade_bounds[OF assms(1)] assms(2) by linarith
  next
    case 2
    then have "pow2 (e + 1) \<le> pow2 (binade x)" by (rule pow2_le)
    then show False using binade_bounds[OF assms(1)] assms(3) by linarith
  qed
qed

lemma round_half_even_of_int: "round_half_even (of_int m) = m"
  by (simp add: round_half_even_def)

text \<open>A 53-bit significand at an exponent of the normal range is a binary64 value.\<close>

lemma fl_representable:
  assumes "\<bar>x\<bar> = of_int m * pow2 e" and "2 ^ 52 \<le> m" and "m < 2 ^ 53"
    and "- 1074 \<le> e" and "e \<le> 971"
  shows "fl x = Finite x"
proof -
  have m: "(2::rat) ^ 52 \<le> of_int m" "of_int m < (2::rat) ^ 53"
    using assms(2,3) by (metis of_int_le_iff of_int_numeral of_int_power,
        metis of_int_less_iff of_int_numeral of_int_power)
  have low: "pow2 (e + 52) \<le> \<bar>x\<bar>"
  proof -
    have "pow2 (e + 52) = pow2 e * 2 ^ 52" using pow2_add[of e 52] by (simp add: pow2_powi)
    also have "\<dots> \<le> pow2 e * of_int m" using m(1) pow2_pos[of e] by simp
    finally show ?thesis using assms(1) by (simp add: mult.commute)
  qed
  have high: "\<bar>x\<bar> < pow2 (e + 52 + 1)"
  proof -
    have "pow2 e * of_int m < pow2 e * 2 ^ 53" using m(2) pow2_pos[of e] by simp
    also have "\<dots> = pow2 (e + 53)" using pow2_add[of e 53] by (simp add: pow2_powi)
    finally show ?thesis using assms(1) by (simp add: mult.commute add.assoc)
  qed
  have pos: "0 < \<bar>x\<bar>" using low pow2_pos[of "e + 52"] by linarith
  then have nonzero: "x \<noteq> 0" by simp
  have b: "binade \<bar>x\<bar> = e + 52" using pos low high by (rule binade_unique)
  have e: "max (e + 52) (- 1022) - 52 = e" using assms(4) by simp
  have "\<bar>x\<bar> / pow2 e = of_int m" using assms(1) pow2_pos[of e] by simp
  then have r: "round_half_even (\<bar>x\<bar> / pow2 e) = m" by (simp add: round_half_even_of_int)
  have same: "sgn x * (of_int m * pow2 e) = x"
    using assms(1)[symmetric] by (simp add: sgn_mult_abs)
  have "fl x =
      (if 1024 \<le> e + 52 \<or> (e + 52 = 1023 \<and> m = 2 ^ 53)
       then (if 0 < x then PosInf else NegInf)
       else Finite (sgn x * (of_int m * pow2 e)))"
    unfolding fl_def Let_def b e r using nonzero by (simp only: if_False)
  moreover have "\<not> (1024 \<le> e + 52 \<or> (e + 52 = 1023 \<and> m = 2 ^ 53))"
    using assms(3,5) by simp
  ultimately show ?thesis
    by (simp only: if_False same)
qed

lemma overflowMetrics_binary64:
  "isBinary64 (Finite (2 ^ 1023))" "isBinary64 (Finite (- (2 ^ 1024 - 2 ^ 971)))"
proof -
  have p: "pow2 971 = 2 ^ 971" by (simp add: pow2_powi)
  have "\<bar>(2::rat) ^ 1023\<bar> = of_int (2 ^ 52) * pow2 971"
    unfolding p by simp
  then have "fl (2 ^ 1023) = Finite (2 ^ 1023)"
    by (rule fl_representable) simp_all
  then show "isBinary64 (Finite (2 ^ 1023))"
    by (simp only: isBinary64_def number.case)
  have "\<bar>- ((2::rat) ^ 1024 - 2 ^ 971)\<bar> = of_int (2 ^ 53 - 1) * pow2 971"
    unfolding p by simp
  then have "fl (- (2 ^ 1024 - 2 ^ 971)) = Finite (- (2 ^ 1024 - 2 ^ 971))"
    by (rule fl_representable) simp_all
  then show "isBinary64 (Finite (- (2 ^ 1024 - 2 ^ 971)))"
    by (simp only: isBinary64_def number.case)
qed

section \<open>The properties stated by the specification\<close>

text \<open>
  The matcher takes the lower-case mapping as the argument \<open>toLowerCase\<close>, and the
  theorems about it hold for every mapping, so for \<^verbatim>\<open>String.prototype.toLowerCase\<close> on
  all of Unicode. The scenarios are ASCII texts, on which that mapping is
  \<open>asciiToLowerCase\<close>.
\<close>

text \<open>
  C1, as the specification states it: for the article with engagement metrics
  \<^verbatim>\<open>{upvotes:100, comments:50, shares:20, reactions:30, views:1000}\<close> and the default
  weights, the \<open>totalScore\<close> of \<open>calculateEngagementScore\<close> is 321. It is not: on the
  article of the test suite the total is different from 321.
\<close>

theorem C1_total_is_not_321:
  "totalScore (calculateEngagementScore (testArticle ''test-1'' scenarioMetrics) DEFAULT_WEIGHTS)
     \<noteq> Finite 321"
  by code_simp

text \<open>
  C1, amended: for every article with these engagement metrics and the default weights,
  the \<open>totalScore\<close> of \<open>calculateEngagementScore\<close> is 264, which is
  \<open>100 * 1.0 + 50 * 2.0 + 20 * 1.5 + 30 * 0.8 + 1000 * 0.01\<close>.
\<close>

theorem C1_scenario_total:
  "totalScore (calculateEngagementScore (article\<lparr>engagement := scenarioMetrics\<rparr>)
     DEFAULT_WEIGHTS) = Finite 264"
  by (simp add: totalScore_calc scenarioMetrics_def DEFAULT_WEIGHTS_def orZero_def falsy_def
      scenario_sum)

text \<open>
  C2, as the specification states it, has \<open>getTopArticles\<close> return an empty sequence
  for every limit \<open>\<le> 0\<close>, and a descending sequence for every input. With the three
  articles of the test suite and limit \<open>-1\<close> the result is not empty: \<^verbatim>\<open>slice(0, -1)\<close>
  drops the last entry only. And with the scores 50, NaN and 100 the result is not
  descending: the \<^verbatim>\<open>sort\<close> of V8, the engine of Node.js, compares neighbours first,
  and both differences that it takes, of 50 and NaN and of NaN and 100, are NaN, which
  \<^verbatim>\<open>sort\<close> reads as 0, so the array is one ordered run and is left as it is, 100
  after 50.
\<close>

theorem C2_negative_limit_not_empty:
  "getTopArticles
     [createScoredArticle ''1'' (Finite 50), createScoredArticle ''2'' (Finite 100),
      createScoredArticle ''3'' (Finite 75)]
     (Finite (- 1)) \<noteq> []
   \<and> map engagementScore
       (getTopArticles
          [createScoredArticle ''1'' (Finite 50), createScoredArticle ''2'' NaN,
           createScoredArticle ''3'' (Finite 100)]
          (Finite 3))
     = [Finite 50, NaN, Finite 100]"
  by code_simp

text \<open>
  C2, amended: for every sequence of scored articles and every integer limit,
  \<open>getTopArticles\<close> sorts the sequence and returns its first \<open>limit\<close> entries when
  \<open>limit \<ge> 0\<close>: all of them when the limit is the input length or more, none for an
  empty input, none for limit 0. For a negative limit it returns the sorted sequence
  without its last \<open>- limit\<close> entries. The sorted sequence has the same entries as the
  input and, when no score is NaN, is descending by \<open>engagementScore\<close> with the entries
  of each score in their input order (a stable sort). The scores are numbers, that is,
  binary64 values, infinities included.
\<close>

theorem C2_getTopArticles_sorted_prefix:
  "(list_all hasOrderedScore xs \<longrightarrow>
      sorted_wrt (\<lambda>a b. lessEq (engagementScore b) (engagementScore a))
        (array_sort byEngagementScore xs)
      \<and> (\<forall>k. filter (\<lambda>a. engagementScore a = k) (array_sort byEngagementScore xs) =
              filter (\<lambda>a. engagementScore a = k) xs))
   \<and> mset (array_sort byEngagementScore xs) = mset xs
   \<and> getTopArticles xs (Finite (of_int limit)) =
       (if 0 \<le> limit then take (nat limit) (array_sort byEngagementScore xs)
        else take (length xs - nat (- limit)) (array_sort byEngagementScore xs))
   \<and> getTopArticles xs (Finite (of_int (int (length xs) + int n))) =
       array_sort byEngagementScore xs
   \<and> getTopArticles [] (Finite (of_int limit)) = []
   \<and> getTopArticles xs (Finite 0) = []"
proof -
  have sorted: "list_all hasOrderedScore xs \<longrightarrow>
      sorted_wrt (\<lambda>a b. lessEq (engagementScore b) (engagementScore a))
        (array_sort byEngagementScore xs)
      \<and> (\<forall>k. filter (\<lambda>a. engagementScore a = k) (array_sort byEngagementScore xs) =
              filter (\<lambda>a. engagementScore a = k) xs)"
    using sorted_array_sort[of xs] filter_array_sort[of xs] by blast
  have same: "mset (array_sort byEngagementScore xs) = mset xs"
    by (rule mset_array_sort)
  have first: "getTopArticles xs (Finite (of_int l)) =
      (if 0 \<le> l then take (nat l) (array_sort byEngagementScore xs)
       else take (length xs - nat (- l)) (array_sort byEngagementScore xs))" for l
    unfolding getTopArticles_take relativeIndex_of_int
    by (simp add: min_def length_array_sort)
  have "take (nat (int (length xs) + int n)) (array_sort byEngagementScore xs) =
      array_sort byEngagementScore xs"
    by (simp add: nat_add_distrib length_array_sort)
  moreover have "0 \<le> int (length xs) + int n" by simp
  ultimately have whole:
    "getTopArticles xs (Finite (of_int (int (length xs) + int n))) =
       array_sort byEngagementScore xs"
    using first[of "int (length xs) + int n"] by (simp only: if_True)
  have empty: "getTopArticles [] (Finite (of_int limit)) = []"
    by (simp add: getTopArticles_take array_sort_def)
  have zero: "getTopArticles xs (Finite 0) = []"
    by (rule getTopArticles_zero)
  from sorted same first[of limit] whole empty zero show ?thesis by blast
qed

text \<open>
  The scenario of the specification: scores 50, 100, 75 and limit 2 give the articles 2
  and 3, and two articles of score 50 keep their order.
\<close>

theorem C2_scenario:
  "list_all hasOrderedScore
     [createScoredArticle ''1'' (Finite 50), createScoredArticle ''2'' (Finite 100),
      createScoredArticle ''3'' (Finite 75), createScoredArticle ''4'' (Finite 50)]
   \<and> map id_article
       (getTopArticles
          [createScoredArticle ''1'' (Finite 50), createScoredArticle ''2'' (Finite 100),
           createScoredArticle ''3'' (Finite 75), createScoredArticle ''4'' (Finite 50)]
          (Finite (of_int 2))) = [str ''2'', str ''3'']
   \<and> map id_article
       (filter (\<lambda>a. engagementScore a = Finite 50)
          (array_sort byEngagementScore
             [createScoredArticle ''1'' (Finite 50), createScoredArticle ''2'' (Finite 100),
              createScoredArticle ''3'' (Finite 75), createScoredArticle ''4'' (Finite 50)]))
     = [str ''1'', str ''4'']
   \<and> sorted_wrt (\<lambda>a b. lessEq (engagementScore b) (engagementScore a))
       (array_sort byEngagementScore
          [createScoredArticle ''1'' (Finite 50), createScoredArticle ''2'' (Finite 100),
           createScoredArticle ''3'' (Finite 75), createScoredArticle ''4'' (Finite 50)])"
proof -
  let ?xs = "[createScoredArticle ''1'' (Finite 50), createScoredArticle ''2'' (Finite 100),
      createScoredArticle ''3'' (Finite 75), createScoredArticle ''4'' (Finite 50)]"
  have ordered: "list_all hasOrderedScore ?xs"
    by code_simp
  have top: "map id_article (take (nat 2) (array_sort byEngagementScore ?xs)) =
      [str ''2'', str ''3'']"
    by code_simp
  have ties: "map id_article (filter (\<lambda>a. engagementScore a = Finite 50) ?xs) =
      [str ''1'', str ''4'']"
    by code_simp
  from C2_getTopArticles_sorted_prefix[of ?xs 2 0] ordered top ties
  show ?thesis by simp
qed

text \<open>
  C3: for every subject id and every assignment of outcomes to the registered providers
  (each returns a list of articles or fails), \<open>fetchAllArticles\<close> returns exactly the
  concatenation of the lists of the providers that did not fail, in registration order
  and each list in its own order; a failing provider contributes nothing, and
  \<open>fetchAllArticles\<close> itself does not fail.
\<close>

theorem C3_fetchAllArticles_healthy_providers:
  "fetchAllArticles crawlers subjectId' =
     Inr (concat (healthyResults (map (\<lambda>crawler. fetchArticles crawler subjectId') crawlers)))"
  by (simp add: fetchAllArticles_def promise_all_crawlerPromise pushAll_concat
      concat_healthyResults)

text \<open>The scenario of the specification: the second of three providers throws.\<close>

theorem C3_one_provider_fails:
  "fetchAllArticles
     [healthyCrawler ''Hacker News''
        [testArticle ''hn-1'' (upvotesOnly (Finite 100)),
         testArticle ''hn-2'' (upvotesOnly (Finite 50))],
      failingCrawler ''Reddit'',
      healthyCrawler ''Dev.to'' [testArticle ''devto-1'' (upvotesOnly (Finite 75))]]
     (str ''agentic-ai'')
   = Inr [testArticle ''hn-1'' (upvotesOnly (Finite 100)),
          testArticle ''hn-2'' (upvotesOnly (Finite 50)),
          testArticle ''devto-1'' (upvotesOnly (Finite 75))]"
  using C3_fetchAllArticles_healthy_providers
    [of "[healthyCrawler ''Hacker News''
            [testArticle ''hn-1'' (upvotesOnly (Finite 100)),
             testArticle ''hn-2'' (upvotesOnly (Finite 50))],
          failingCrawler ''Reddit'',
          healthyCrawler ''Dev.to'' [testArticle ''devto-1'' (upvotesOnly (Finite 75))]]"
        "str ''agentic-ai''"]
  by (simp add: healthyCrawler_def failingCrawler_def)

text \<open>
  C4, as the specification states it, has the explanation begin with the first rendered
  metric, and list every metric that is present and not zero. For the article of the
  explanation test (10 upvotes, 5 comments) the explanation of
  \<open>calculateEngagementScore\<close> is not that text: it begins with
  \<^verbatim>\<open>Score calculation: \<close>. And for an article with NaN upvotes and 5 comments it is
  not that text even after \<^verbatim>\<open>Score calculation: \<close>: NaN is falsy, and the upvotes are
  not listed.
\<close>

theorem C4_explanation_has_a_prefix:
  "explanation
     (calculateEngagementScore (testArticle ''test-7'' explanationMetrics) DEFAULT_WEIGHTS)
   \<noteq> specExplanation []
       (presentNonZero (metricEntries explanationMetrics DEFAULT_WEIGHTS))
       (totalScore
          (calculateEngagementScore (testArticle ''test-7'' explanationMetrics)
             DEFAULT_WEIGHTS))
   \<and> explanation
     (calculateEngagementScore (testArticle ''test-nan'' nanMetrics) DEFAULT_WEIGHTS)
   \<noteq> specExplanation (str ''Score calculation: '')
       (presentNonZero (metricEntries nanMetrics DEFAULT_WEIGHTS))
       (totalScore
          (calculateEngagementScore (testArticle ''test-nan'' nanMetrics) DEFAULT_WEIGHTS))"
  by code_simp

text \<open>
  C4, amended: for every article, the explanation is exactly
  \<^verbatim>\<open>No engagement metrics available\<close> when every metric is absent, zero or NaN, and
  otherwise is exactly \<^verbatim>\<open>Score calculation: \<close> followed by the list, in the fixed order
  upvotes, comments, shares, reactions, views, of only the metrics that are present and
  neither zero nor NaN, each rendered as
  \<^verbatim>\<open><value> <metricName> x <weight> = <contribution to one decimal place>\<close>, joined with
  \<^verbatim>\<open> + \<close>, followed by \<^verbatim>\<open> = <totalScore to one decimal place>\<close>.
\<close>

theorem C4_explanation:
  "explanation (calculateEngagementScore article weights) =
     specExplanation (str ''Score calculation: '')
       (listedMetrics (metricEntries (engagement article) weights))
       (totalScore (calculateEngagementScore article weights))"
  unfolding calculateEngagementScore_def specExplanation_def Let_def
  by (simp add: explanationParts_listedMetrics)

text \<open>The explanation test of the test suite, and the article without metrics.\<close>

theorem C4_explanation_of_test_articles:
  "explanation
     (calculateEngagementScore (testArticle ''test-7'' explanationMetrics) DEFAULT_WEIGHTS)
     = str ''Score calculation: 10 upvotes x 1 = 10.0 + 5 comments x 2 = 10.0 = 20.0''
   \<and> explanation
     (calculateEngagementScore
        (testArticle ''test-4''
           \<lparr>upvotes = None, comments = Some (Finite 0), shares = None, reactions = None,
            views = None\<rparr>)
        DEFAULT_WEIGHTS)
     = str ''No engagement metrics available''"
proof -
  have "specExplanation (str ''Score calculation: '')
      (listedMetrics (metricEntries (engagement (testArticle ''test-7'' explanationMetrics))
         DEFAULT_WEIGHTS))
      (totalScore
         (calculateEngagementScore (testArticle ''test-7'' explanationMetrics) DEFAULT_WEIGHTS))
      = str ''Score calculation: 10 upvotes x 1 = 10.0 + 5 comments x 2 = 10.0 = 20.0''"
    by code_simp
  moreover have "specExplanation (str ''Score calculation: '')
      (listedMetrics (metricEntries (engagement
         (testArticle ''test-4''
            \<lparr>upvotes = None, comments = Some (Finite 0), shares = None, reactions = None,
             views = None\<rparr>)) DEFAULT_WEIGHTS))
      (totalScore
         (calculateEngagementScore
            (testArticle ''test-4''
               \<lparr>upvotes = None, comments = Some (Finite 0), shares = None, reactions = None,
                views = None\<rparr>) DEFAULT_WEIGHTS))
      = str ''No engagement metrics available''"
    by code_simp
  ultimately show ?thesis
    by (simp only: C4_explanation)
qed

text \<open>
  C5, as the specification states it, for every registered subject, whatever its keyword
  lists hold. The registry accepts a subject with an empty keyword, and the empty text
  includes the empty keyword: the result is a match.
\<close>

theorem C5_empty_keyword_matches_empty_text:
  "matchContent asciiToLowerCase (addSubject Map.empty emptyKeywordSubject) [] (str ''blank'')
     \<noteq> None"
  by code_simp

text \<open>
  C5, amended: for every registered subject none of whose keywords and related terms is
  the empty string, \<open>matchContent\<close> applied to the empty input text returns absent. The
  lower-case mapping gives the empty string for the empty string and for no other, as
  \<^verbatim>\<open>String.prototype.toLowerCase\<close> does.
\<close>

theorem C5_empty_text_absent:
  assumes "getSubject subjects i = Some subject"
    and "[] \<notin> set (keywords_subject subject)"
    and "[] \<notin> set (relatedTerms subject)"
    and "\<forall>t. (toLowerCase t = []) = (t = [])"
  shows "matchContent toLowerCase subjects [] i = None"
proof -
  have empty: "toLowerCase [] = []"
    using assms(4) by blast
  have hit: "string_includes (toLowerCase []) (toLowerCase t) \<longleftrightarrow> t = []" for t
    unfolding empty includes_empty_text using assms(4) by blast
  have "filter (\<lambda>t. string_includes (toLowerCase []) (toLowerCase t))
      (keywords_subject subject) = []"
    using assms(2) by (auto simp: hit filter_empty_conv)
  moreover have "filter (\<lambda>t. string_includes (toLowerCase []) (toLowerCase t))
      (relatedTerms subject) = []"
    using assms(3) by (auto simp: hit filter_empty_conv)
  ultimately show ?thesis
    by (simp add: matchContent_registered[OF assms(1)] Let_def)
qed

theorem C5_empty_text_on_test_subject:
  "getSubject (addSubject Map.empty testSubject) (str ''test-subject'') = Some testSubject
   \<and> [] \<notin> set (keywords_subject testSubject)
   \<and> [] \<notin> set (relatedTerms testSubject)
   \<and> (\<forall>t. (asciiToLowerCase t = []) = (t = []))
   \<and> matchContent asciiToLowerCase (addSubject Map.empty testSubject) [] (str ''test-subject'')
       = None"
proof -
  have registered:
    "getSubject (addSubject Map.empty testSubject) (str ''test-subject'') = Some testSubject"
    by (simp add: getSubject_def addSubject_def testSubject_def)
  have primary: "[] \<notin> set (keywords_subject testSubject)"
    by (simp add: testSubject_def str_def)
  have related: "[] \<notin> set (relatedTerms testSubject)"
    by (simp add: testSubject_def str_def)
  have lower: "\<forall>t. (asciiToLowerCase t = []) = (t = [])"
    by (simp add: asciiToLowerCase_def)
  from C5_empty_text_absent[OF registered primary related lower] registered primary related
    lower
  show ?thesis by blast
qed






text \<open>
  C8, as the specification states it: every scored article has
  \<^verbatim>\<open>engagementScore === scoreBreakdown.totalScore\<close>. For an article with \<open>2 ^ 1023\<close>
  comments and as many negative shares as the largest number, both of them numbers, and
  the default weights, the contributions are \<^verbatim>\<open>Infinity\<close> and \<^verbatim>\<open>-Infinity\<close>, the total
  is NaN, and NaN is not \<^verbatim>\<open>===\<close> to itself.
\<close>

theorem C8_overflow_not_strictly_equal:
  "isBinary64 (Finite (2 ^ 1023)) \<and> isBinary64 (Finite (- (2 ^ 1024 - 2 ^ 971)))
   \<and> map (\<lambda>scored. strictEquals (engagementScore scored) (totalScore (scoreBreakdown scored)))
       (scoreArticles asciiToLowerCase (addSubject Map.empty testSubject)
          [testArticle ''overflow'' overflowMetrics] (str ''test-subject'') DEFAULT_WEIGHTS)
     = [False]"
  by (simp add: overflowMetrics_binary64 scoreArticles_map engagementScore_scoreArticle_calc
      overflow_total strictEquals_def del: power_numeral minus_diff_eq)

text \<open>
  C8, amended: every scored article produced by \<open>scoreArticles\<close>, for any input articles,
  subject id and weights, has the \<open>totalScore\<close> of its \<open>scoreBreakdown\<close> as its
  \<open>engagementScore\<close>, so that \<^verbatim>\<open>engagementScore === scoreBreakdown.totalScore\<close> holds
  exactly when the total is not NaN; and the output has the length and the order of the
  input: the articles of the output, taken without the added fields, are the input
  articles.
\<close>

theorem C8_scoreArticles_invariant:
  "map engagementScore (scoreArticles toLowerCase subjects articles subjectId' weights) =
     map (\<lambda>scored. totalScore (scoreBreakdown scored))
       (scoreArticles toLowerCase subjects articles subjectId' weights)
   \<and> map (\<lambda>scored. strictEquals (engagementScore scored) (totalScore (scoreBreakdown scored)))
       (scoreArticles toLowerCase subjects articles subjectId' weights) =
     map (\<lambda>scored. totalScore (scoreBreakdown scored) \<noteq> NaN)
       (scoreArticles toLowerCase subjects articles subjectId' weights)
   \<and> length (scoreArticles toLowerCase subjects articles subjectId' weights) = length articles
   \<and> map Article.truncate (scoreArticles toLowerCase subjects articles subjectId' weights) =
       articles"
proof -
  have "map engagementScore (scoreArticles toLowerCase subjects articles subjectId' weights) =
      map (\<lambda>scored. totalScore (scoreBreakdown scored))
        (scoreArticles toLowerCase subjects articles subjectId' weights)"
    by (simp add: scoreArticles_map engagementScore_scoreArticle)
  moreover have
    "map (\<lambda>scored. strictEquals (engagementScore scored) (totalScore (scoreBreakdown scored)))
       (scoreArticles toLowerCase subjects articles subjectId' weights) =
     map (\<lambda>scored. totalScore (scoreBreakdown scored) \<noteq> NaN)
       (scoreArticles toLowerCase subjects articles subjectId' weights)"
    by (simp add: scoreArticles_map engagementScore_scoreArticle strictEquals_same)
  moreover have "map Article.truncate
      (scoreArticles toLowerCase subjects articles subjectId' weights) = articles"
    by (simp add: scoreArticles_map truncate_scoreArticle comp_def)
  moreover have "length (scoreArticles toLowerCase subjects articles subjectId' weights) =
      length articles"
    by (simp add: scoreArticles_map)
  ultimately show ?thesis by blast
qed

text \<open>The scoring test of the test suite: two articles with 100 and 50 upvotes.\<close>

theorem C8_scores_of_test_articles:
  "map engagementScore
     (scoreArticles asciiToLowerCase (addSubject Map.empty testSubject)
        [testArticle ''1'' (upvotesOnly (Finite 100)), testArticle ''2'' (upvotesOnly (Finite 50))]
        (str ''test-subject'') DEFAULT_WEIGHTS) = [Finite 100, Finite 50]
   \<and> map (\<lambda>scored. totalScore (scoreBreakdown scored))
     (scoreArticles asciiToLowerCase (addSubject Map.empty testSubject)
        [testArticle ''1'' (upvotesOnly (Finite 100)), testArticle ''2'' (upvotesOnly (Finite 50))]
        (str ''test-subject'') DEFAULT_WEIGHTS) = [Finite 100, Finite 50]
   \<and> map (\<lambda>scored. strictEquals (engagementScore scored) (totalScore (scoreBreakdown scored)))
     (scoreArticles asciiToLowerCase (addSubject Map.empty testSubject)
        [testArticle ''1'' (upvotesOnly (Finite 100)), testArticle ''2'' (upvotesOnly (Finite 50))]
        (str ''test-subject'') DEFAULT_WEIGHTS) = [True, True]
   \<and> map Article.truncate
     (scoreArticles asciiToLowerCase (addSubject Map.empty testSubject)
        [testArticle ''1'' (upvotesOnly (Finite 100)), testArticle ''2'' (upvotesOnly (Finite 50))]
        (str ''test-subject'') DEFAULT_WEIGHTS)
     = [testArticle ''1'' (upvotesOnly (Finite 100)), testArticle ''2'' (upvotesOnly (Finite 50))]"
proof -
  have "map engagementScore
     (scoreArticles asciiToLowerCase (addSubject Map.empty testSubject)
        [testArticle ''1'' (upvotesOnly (Finite 100)), testArticle ''2'' (upvotesOnly (Finite 50))]
        (str ''test-subject'') DEFAULT_WEIGHTS) = [Finite 100, Finite 50]"
    by code_simp
  moreover have
    "map (\<lambda>scored. strictEquals (engagementScore scored) (totalScore (scoreBreakdown scored)))
     (scoreArticles asciiToLowerCase (addSubject Map.empty testSubject)
        [testArticle ''1'' (upvotesOnly (Finite 100)), testArticle ''2'' (upvotesOnly (Finite 50))]
        (str ''test-subject'') DEFAULT_WEIGHTS) = [True, True]"
    by code_simp
  ultimately show ?thesis
    using C8_scoreArticles_invariant
      [of asciiToLowerCase "addSubject Map.empty testSubject"
          "[testArticle ''1'' (upvotesOnly (Finite 100)),
            testArticle ''2'' (upvotesOnly (Finite 50))]"
          "str ''test-subject''" DEFAULT_WEIGHTS]
    by simp
qed




text \<open>
  C10, as the specification states it, has no caller obtain zero articles through the
  HTTP interface. A caller does with a negative limit: for the subject of the test suite
  and one provider with three articles, the request with \<^verbatim>\<open>limit=-3\<close> is answered with
  three articles found and none returned, because \<^verbatim>\<open>slice(0, -3)\<close> of three entries is
  empty.
\<close>

theorem C10_negative_limit_returns_nothing:
  "articlesHandler asciiToLowerCase (addSubject Map.empty testSubject)
     [healthyCrawler ''Hacker News''
        [testArticle ''1'' (upvotesOnly (Finite 100)), testArticle ''2'' (upvotesOnly (Finite 50)),
         testArticle ''3'' (upvotesOnly (Finite 75))]]
     noContent (str ''test-subject'') (Some (Text (str ''-3'')))
   = Ok \<lparr>subject_body = str ''Test Subject'', totalFound = 3, returned = 0,
         weights_body = DEFAULT_WEIGHTS, articles_body = []\<rparr>"
  by code_simp

text \<open>
  C10, amended: for every request \<^verbatim>\<open>GET /api/articles/:subjectId\<close> whose \<^verbatim>\<open>limit\<close> query
  parameter is \<^verbatim>\<open>0\<close>, absent, or not parseable as an integer, the handler uses limit 10:
  an unknown subject is answered with 404, and for a registered subject the articles of
  the providers that did not fail are scored with the default weights, the first 10 of
  them by score are taken by \<open>getTopArticles\<close> and enriched, and these are returned.
  Whatever the parameter, the limit that reaches \<open>getTopArticles\<close> is neither 0 nor NaN,
  although \<open>getTopArticles\<close> itself returns an empty sequence for limit 0; a limit that
  is positive selects at least one article when there is one; a negative limit is passed
  on as it is.
\<close>

theorem C10_default_limit:
  assumes "limitParam = None \<or> limitParam = Some (Text (str ''0''))
           \<or> parseInt (limitText limitParam) = NaN"
  shows "requestLimit limitParam = Finite 10
         \<and> articlesHandler toLowerCase subjects crawlers fetchArticleContent subjectId'
             limitParam =
             (case getSubject subjects subjectId' of
                None \<Rightarrow> NotFound (str ''Subject not found'')
              | Some subject \<Rightarrow>
                  (let articles = concat (healthyResults
                         (map (\<lambda>crawler. fetchArticles crawler subjectId') crawlers));
                       topArticles =
                         getTopArticles
                           (scoreArticles toLowerCase subjects articles subjectId'
                              DEFAULT_WEIGHTS)
                           (Finite 10)
                   in Ok \<lparr>subject_body = name subject,
                          totalFound = length articles,
                          returned = length topArticles,
                          weights_body = DEFAULT_WEIGHTS,
                          articles_body =
                            map (enrichArticle fetchArticleContent) topArticles\<rparr>))
         \<and> requestLimit anyParam \<noteq> Finite 0
         \<and> requestLimit anyParam \<noteq> NaN
         \<and> (isPositive (requestLimit anyParam) \<and> scoredArticles \<noteq> [] \<longrightarrow>
              getTopArticles scoredArticles (requestLimit anyParam) \<noteq> [])
         \<and> getTopArticles scoredArticles (Finite 0) = []"
proof -
  have absent: "parseInt (limitText None) = NaN" by code_simp
  have zero: "parseInt (limitText (Some (Text (str ''0'')))) = Finite 0" by code_simp
  have limit: "requestLimit limitParam = Finite 10"
    using assms absent zero by (auto simp: requestLimit_def falsy_def)
  have handler:
    "articlesHandler toLowerCase subjects crawlers fetchArticleContent subjectId' limitParam =
       (case getSubject subjects subjectId' of
          None \<Rightarrow> NotFound (str ''Subject not found'')
        | Some subject \<Rightarrow>
            (let articles = concat (healthyResults
                   (map (\<lambda>crawler. fetchArticles crawler subjectId') crawlers));
                 topArticles =
                   getTopArticles
                     (scoreArticles toLowerCase subjects articles subjectId' DEFAULT_WEIGHTS)
                     (Finite 10)
             in Ok \<lparr>subject_body = name subject,
                    totalFound = length articles,
                    returned = length topArticles,
                    weights_body = DEFAULT_WEIGHTS,
                    articles_body = map (enrichArticle fetchArticleContent) topArticles\<rparr>))"
    unfolding articlesHandler_def limit
    by (simp add: fetchAllArticles_results concat_healthyResults
        enrichArticlesWithContent_map Let_def split: option.splits)
  have never: "requestLimit anyParam \<noteq> Finite 0" "requestLimit anyParam \<noteq> NaN"
    using requestLimit_not_falsy[of anyParam] by (simp_all add: falsy_def)
  have positive: "isPositive (requestLimit anyParam) \<and> scoredArticles \<noteq> [] \<longrightarrow>
      getTopArticles scoredArticles (requestLimit anyParam) \<noteq> []"
    using positive_limit_nonempty[of anyParam scoredArticles] by blast
  have "getTopArticles scoredArticles (Finite 0) = []"
    by (rule getTopArticles_zero)
  with limit handler never positive show ?thesis by blast
qed

text \<open>
  The three kinds of parameter, a parameter that is kept, and the answer to a request
  with \<^verbatim>\<open>limit=0\<close> for the subject of the test suite and one provider with three
  articles.
\<close>

theorem C10_default_limit_examples:
  "requestLimit None = Finite 10
   \<and> requestLimit (Some (Text (str ''0''))) = Finite 10
   \<and> parseInt (limitText (Some (Text (str ''abc'')))) = NaN
   \<and> requestLimit (Some (Text (str ''abc''))) = Finite 10
   \<and> requestLimit (Some (Text (str ''5''))) = Finite 5
   \<and> isPositive (requestLimit (Some (Text (str ''5''))))
   \<and> getTopArticles [createScoredArticle ''1'' (Finite 50)]
       (requestLimit (Some (Text (str ''5'')))) \<noteq> []
   \<and> (case articlesHandler asciiToLowerCase (addSubject Map.empty testSubject)
              [healthyCrawler ''Hacker News''
                 [testArticle ''1'' (upvotesOnly (Finite 100)),
                  testArticle ''2'' (upvotesOnly (Finite 50)),
                  testArticle ''3'' (upvotesOnly (Finite 75))]]
              noContent (str ''test-subject'') (Some (Text (str ''0''))) of
         Ok body \<Rightarrow> (totalFound body, returned body, map id_article (articles_body body))
       | NotFound message \<Rightarrow> (0, 0, [])
       | ServerError message \<Rightarrow> (0, 0, []))
     = (3, 3, [str ''1'', str ''3'', str ''2''])"
proof -
  have unparseable: "parseInt (limitText (Some (Text (str ''abc'')))) = NaN" by code_simp
  have kept: "requestLimit (Some (Text (str ''5''))) = Finite 5" by code_simp
  have answer:
    "(case articlesHandler asciiToLowerCase (addSubject Map.empty testSubject)
              [healthyCrawler ''Hacker News''
                 [testArticle ''1'' (upvotesOnly (Finite 100)),
                  testArticle ''2'' (upvotesOnly (Finite 50)),
                  testArticle ''3'' (upvotesOnly (Finite 75))]]
              noContent (str ''test-subject'') (Some (Text (str ''0''))) of
         Ok body \<Rightarrow> (totalFound body, returned body, map id_article (articles_body body))
       | NotFound message \<Rightarrow> (0, 0, [])
       | ServerError message \<Rightarrow> (0, 0, []))
     = (3, 3, [str ''1'', str ''3'', str ''2''])"
    by code_simp
  have "requestLimit None = Finite 10"
    using C10_default_limit[where limitParam = None] by simp
  moreover have "requestLimit (Some (Text (str ''0''))) = Finite 10"
    using C10_default_limit[where limitParam = "Some (Text (str ''0''))"] by simp
  moreover have "requestLimit (Some (Text (str ''abc''))) = Finite 10"
    using C10_default_limit[where limitParam = "Some (Text (str ''abc''))"] unparseable by simp
  moreover have "getTopArticles [createScoredArticle ''1'' (Finite 50)]
      (requestLimit (Some (Text (str ''5'')))) \<noteq> []"
    using C10_default_limit[where limitParam = None
        and anyParam = "Some (Text (str ''5''))"
        and scoredArticles = "[createScoredArticle ''1'' (Finite 50)]"] kept
    by simp
  ultimately show ?thesis using unparseable kept answer by simp
qed

end
